theory Spec2Isabelle
  imports Main "HOL-Library.Word"
begin

section \<open>The page as app.js sees it\<close>

text \<open>
  demo-frontend/app.js keeps no data of its own: every function reads and writes the
  browser document. The document is modelled as the tree it is. A node is a piece of
  text, a piece of markup assigned through \<open>innerHTML\<close> (kept unparsed: the elements it
  makes carry none of the ids and classes the script selects on, for the messages the
  script passes), or an element with its children in document order. Of an element's
  attributes the model keeps what the script touches: the \<open>id\<close>, the \<open>data-testid\<close>,
  the class list (the token list behind \<open>className\<close> and \<open>classList\<close>) and the form
  value (UTF-16 code units, as a JavaScript string has them; \<open>None\<close> for an element
  that is no form control, whose \<open>value\<close> is undefined). \<open>node_ref\<close> is the identity
  of the node; the document numbers the nodes it creates from \<open>next_ref\<close>. Callbacks
  given to \<open>setTimeout\<close> are queued with their delay and do not run before the calling
  function has returned.
\<close>

type_synonym js_string = "16 word list"

record attrs =
  node_ref :: nat
  el_id :: "string option"
  testid :: "string option"
  classes :: "string list"
  el_value :: "js_string option"

datatype node = Text string | Markup string | Element attrs "node list"

datatype timer_action = RemoveNode nat | Navigate string

record document =
  nodes :: "node list"
  timers :: "(nat \<times> timer_action) list"
  next_ref :: nat

datatype js_exception = SyntaxError | InvalidCharacterError | TypeError

record event =
  defaultPrevented :: bool

subsection \<open>Class lists\<close>

definition ascii_whitespace :: "char \<Rightarrow> bool" where
  "ascii_whitespace c \<longleftrightarrow> c \<in> set [CHR 0x09, CHR 0x0A, CHR 0x0C, CHR 0x0D, CHR 0x20]"

text \<open>Splitting a \<open>class\<close> attribute on ASCII whitespace; \<open>acc\<close> is the token being read.\<close>

fun tokens_of :: "string \<Rightarrow> string \<Rightarrow> string list" where
  "tokens_of acc [] = (if acc = [] then [] else [acc])"
| "tokens_of acc (c # cs) =
     (if ascii_whitespace c
      then (if acc = [] then tokens_of [] cs else acc # tokens_of [] cs)
      else tokens_of (acc @ [c]) cs)"

text \<open>Assigning \<open>el.className = s\<close>: the tokens of \<open>s\<close> as an ordered set.\<close>

definition class_tokens :: "string \<Rightarrow> string list" where
  "class_tokens s = fold (\<lambda>t ts. if t \<in> set ts then ts else ts @ [t]) (tokens_of [] s) []"

text \<open>
  \<open>classList.add\<close> and \<open>classList.remove\<close> first validate the token: the empty string
  throws a SyntaxError, a token with ASCII whitespace an InvalidCharacterError.
\<close>

definition token_error :: "string \<Rightarrow> js_exception option" where
  "token_error t =
     (if t = [] then Some SyntaxError
      else if \<exists>c \<in> set t. ascii_whitespace c then Some InvalidCharacterError
      else None)"

definition put_class :: "string \<Rightarrow> attrs \<Rightarrow> attrs" where
  "put_class t a = a\<lparr>classes := (if t \<in> set (classes a) then classes a else classes a @ [t])\<rparr>"

definition drop_class :: "string \<Rightarrow> attrs \<Rightarrow> attrs" where
  "drop_class t a = a\<lparr>classes := removeAll t (classes a)\<rparr>"

definition classList_add :: "string \<Rightarrow> attrs \<Rightarrow> js_exception + attrs" where
  "classList_add t a = (case token_error t of Some ex \<Rightarrow> Inl ex | None \<Rightarrow> Inr (put_class t a))"

definition classList_remove :: "string \<Rightarrow> attrs \<Rightarrow> js_exception + attrs" where
  "classList_remove t a = (case token_error t of Some ex \<Rightarrow> Inl ex | None \<Rightarrow> Inr (drop_class t a))"

definition has_class :: "string \<Rightarrow> attrs \<Rightarrow> bool" where
  "has_class c a \<longleftrightarrow> c \<in> set (classes a)"

subsection \<open>Looking elements up and writing to them\<close>

text \<open>The first element, in document order, whose attributes satisfy \<open>P\<close>.\<close>

fun find_node :: "(attrs \<Rightarrow> bool) \<Rightarrow> node \<Rightarrow> node option"
  and find_nodes :: "(attrs \<Rightarrow> bool) \<Rightarrow> node list \<Rightarrow> node option" where
  "find_node P (Text t) = None"
| "find_node P (Markup m) = None"
| "find_node P (Element a cs) = (if P a then Some (Element a cs) else find_nodes P cs)"
| "find_nodes P [] = None"
| "find_nodes P (n # ns) = (case find_node P n of Some x \<Rightarrow> Some x | None \<Rightarrow> find_nodes P ns)"

text \<open>
  A JavaScript variable holding the result of a lookup refers to that element; a write
  through the variable changes the element where it stands in the tree. \<open>update_node P f\<close>
  applies \<open>f\<close> to the first element satisfying \<open>P\<close> and leaves a tree without such an
  element as it is.
\<close>

fun update_node :: "(attrs \<Rightarrow> bool) \<Rightarrow> (node \<Rightarrow> node) \<Rightarrow> node \<Rightarrow> node"
  and update_nodes :: "(attrs \<Rightarrow> bool) \<Rightarrow> (node \<Rightarrow> node) \<Rightarrow> node list \<Rightarrow> node list" where
  "update_node P f (Text t) = Text t"
| "update_node P f (Markup m) = Markup m"
| "update_node P f (Element a cs) = (if P a then f (Element a cs) else Element a (update_nodes P f cs))"
| "update_nodes P f [] = []"
| "update_nodes P f (n # ns) =
     (if find_node P n = None then n # update_nodes P f ns else update_node P f n # ns)"

text \<open>The writes the script performs on an element: a change of its attributes, an
  assignment to \<open>textContent\<close> (every child is removed; a text node is put in their
  place unless the text is empty) and \<open>appendChild\<close>.\<close>

fun on_attrs :: "(attrs \<Rightarrow> attrs) \<Rightarrow> node \<Rightarrow> node" where
  "on_attrs g (Element a cs) = Element (g a) cs"
| "on_attrs g n = n"

definition text_children :: "string \<Rightarrow> node list" where
  "text_children text = (if text = [] then [] else [Text text])"

fun set_textContent :: "string \<Rightarrow> node \<Rightarrow> node" where
  "set_textContent text (Element a cs) = Element a (text_children text)"
| "set_textContent text n = n"

fun appendChild :: "node \<Rightarrow> node \<Rightarrow> node" where
  "appendChild c (Element a cs) = Element a (cs @ [c])"
| "appendChild c n = n"

text \<open>Reading \<open>textContent\<close>: the texts below the node, in order. The text of unparsed
  markup is not known to the model.\<close>

fun textContent :: "node \<Rightarrow> string option" where
  "textContent (Text t) = Some t"
| "textContent (Markup m) = None"
| "textContent (Element a cs) = map_option concat (those (map textContent cs))"

fun attrs_of :: "node \<Rightarrow> attrs option" where
  "attrs_of (Element a cs) = Some a"
| "attrs_of n = None"

definition getElementById :: "string \<Rightarrow> document \<Rightarrow> node option" where
  "getElementById i d = find_nodes (\<lambda>a. el_id a = Some i) (nodes d)"

definition update_by_id :: "string \<Rightarrow> (node \<Rightarrow> node) \<Rightarrow> document \<Rightarrow> document" where
  "update_by_id i f d = d\<lparr>nodes := update_nodes (\<lambda>a. el_id a = Some i) f (nodes d)\<rparr>"

text \<open>\<open>document.querySelectorAll('.c').forEach(el => ...)\<close> with a change \<open>g\<close> of the
  attributes of each selected element.\<close>

fun for_each_node :: "(attrs \<Rightarrow> attrs) \<Rightarrow> node \<Rightarrow> node" where
  "for_each_node g (Text t) = Text t"
| "for_each_node g (Markup m) = Markup m"
| "for_each_node g (Element a cs) = Element (g a) (map (for_each_node g) cs)"

definition for_each_with_class :: "string \<Rightarrow> (attrs \<Rightarrow> attrs) \<Rightarrow> document \<Rightarrow> document" where
  "for_each_with_class c g d =
     d\<lparr>nodes := map (for_each_node (\<lambda>a. if has_class c a then g a else a)) (nodes d)\<rparr>"

definition setTimeout :: "timer_action \<Rightarrow> nat \<Rightarrow> document \<Rightarrow> document" where
  "setTimeout act ms d = d\<lparr>timers := timers d @ [(ms, act)]\<rparr>"

section \<open>Modals and toasts\<close>

text \<open>
  \<^verbatim>\<open>function closeAllModals() {
  document.querySelectorAll('.modal-overlay').forEach(m => m.classList.remove('visible'));
}\<close>
  The token \<open>visible\<close> is a literal that passes validation, so the removal cannot throw.
\<close>

definition closeAllModals :: "document \<Rightarrow> document" where
  "closeAllModals d = for_each_with_class ''modal-overlay'' (drop_class ''visible'') d"

text \<open>
  \<open>showToast(type, message)\<close> is only ever called with the types \<open>'success'\<close> and
  \<open>'error'\<close>; the icon table has a third key, \<open>'warning'\<close>. The type is therefore a
  datatype of these three, and the fallback icon of \<open>icons[type] || ...\<close> has no branch
  here. Icons and the dismiss sign are given as their UTF-8 bytes.
\<close>

datatype toast_type = Success | Error | Warning

fun type_name :: "toast_type \<Rightarrow> string" where
  "type_name Success = ''success''"
| "type_name Error = ''error''"
| "type_name Warning = ''warning''"

fun icons :: "toast_type \<Rightarrow> string" where
  "icons Success = [CHR 0xE2, CHR 0x9C, CHR 0x93]"
| "icons Error = [CHR 0xE2, CHR 0x9C, CHR 0x95]"
| "icons Warning = [CHR 0xE2, CHR 0x9A, CHR 0xA0]"

definition toast_markup :: "toast_type \<Rightarrow> string \<Rightarrow> string" where
  \<open>toast_markup ty message =
     [CHR 0x0A] @ ''    <span>'' @ icons ty @ ''</span>'' @
     [CHR 0x0A] @ ''    <span>'' @ message @ ''</span>'' @
     [CHR 0x0A] @ ''    <button class="toast-dismiss" onclick="this.parentElement.remove()">'' @
       [CHR 0xC3, CHR 0x97] @ ''</button>'' @
     [CHR 0x0A] @ ''  ''\<close>

text \<open>The \<open>div\<close> that \<open>showToast\<close> creates, as node \<open>r\<close>.\<close>

definition toast_node :: "nat \<Rightarrow> toast_type \<Rightarrow> string \<Rightarrow> node" where
  "toast_node r ty message =
     Element \<lparr>node_ref = r, el_id = None, testid = Some (''toast-'' @ type_name ty),
              classes = class_tokens (''toast toast-'' @ type_name ty), el_value = None\<rparr>
       [Markup (toast_markup ty message)]"

text \<open>
  \<^verbatim>\<open>function showToast(type, message) {
  const container = document.getElementById('toast-container');
  if (!container) return;
  const toast = document.createElement('div');
  toast.className = `toast toast-${type}`;
  toast.setAttribute('data-testid', `toast-${type}`);
  toast.innerHTML = ...;
  container.appendChild(toast);
  setTimeout(() => toast.remove(), 4000);
}\<close>
\<close>

definition showToast :: "toast_type \<Rightarrow> string \<Rightarrow> document \<Rightarrow> document" where
  "showToast ty message d =
     (case getElementById ''toast-container'' d of
        None \<Rightarrow> d
      | Some container \<Rightarrow>
          let r = next_ref d;
              toast = toast_node r ty message;
              d' = (update_by_id ''toast-container'' (appendChild toast) d)\<lparr>next_ref := Suc r\<rparr>
          in setTimeout (RemoveNode r) 4000 d')"

section \<open>Workflow actions\<close>

text \<open>
  \<^verbatim>\<open>function updateStatusBadge(text, className) {
  const badge = document.getElementById('status-badge');
  if (!badge) return;
  badge.className = 'badge';
  badge.classList.add(className);
  badge.textContent = text;
}\<close>
  A function returns the exception it threw, if any, beside the document as it left it:
  when \<open>classList.add\<close> throws, the class list has already been reset and the text has
  not been written. The assignment to \<open>textContent\<close> removes whatever elements stood
  inside the badge.
\<close>

definition write_badge :: "string \<Rightarrow> string \<Rightarrow> node \<Rightarrow> node" where
  "write_badge text className badge =
     (let b1 = on_attrs (\<lambda>a. a\<lparr>classes := class_tokens ''badge''\<rparr>) badge in
      case token_error className of
        Some ex \<Rightarrow> b1
      | None \<Rightarrow> set_textContent text (on_attrs (put_class className) b1))"

definition updateStatusBadge :: "string \<Rightarrow> string \<Rightarrow> document \<Rightarrow> js_exception option \<times> document" where
  "updateStatusBadge text className d =
     (case getElementById ''status-badge'' d of
        None \<Rightarrow> (None, d)
      | Some badge \<Rightarrow>
          (token_error className, update_by_id ''status-badge'' (write_badge text className) d))"

text \<open>
  The six handlers have one shape, for instance
  \<^verbatim>\<open>function lockRecord() {
  closeAllModals();
  updateStatusBadge('Locked', 'badge--locked');
  showToast('success', 'Record locked');
}\<close>
  None takes an argument and none reads the document before writing to it.
\<close>

definition submitForReview :: "document \<Rightarrow> js_exception option \<times> document" where
  "submitForReview d =
     (let d1 = closeAllModals d;
          (ex, d2) = updateStatusBadge ''Pending Review'' ''badge--pending'' d1
      in case ex of Some e \<Rightarrow> (Some e, d2)
         | None \<Rightarrow> (None, showToast Success ''Record submitted for review'' d2))"

definition approveRecord :: "document \<Rightarrow> js_exception option \<times> document" where
  "approveRecord d =
     (let d1 = closeAllModals d;
          (ex, d2) = updateStatusBadge ''Approved'' ''badge--approved'' d1
      in case ex of Some e \<Rightarrow> (Some e, d2)
         | None \<Rightarrow> (None, showToast Success ''Record approved'' d2))"

definition rejectRecord :: "document \<Rightarrow> js_exception option \<times> document" where
  "rejectRecord d =
     (let d1 = closeAllModals d;
          (ex, d2) = updateStatusBadge ''Rejected'' ''badge--rejected'' d1
      in case ex of Some e \<Rightarrow> (Some e, d2)
         | None \<Rightarrow> (None, showToast Success ''Record rejected'' d2))"

definition lockRecord :: "document \<Rightarrow> js_exception option \<times> document" where
  "lockRecord d =
     (let d1 = closeAllModals d;
          (ex, d2) = updateStatusBadge ''Locked'' ''badge--locked'' d1
      in case ex of Some e \<Rightarrow> (Some e, d2)
         | None \<Rightarrow> (None, showToast Success ''Record locked'' d2))"

definition unlockRecord :: "document \<Rightarrow> js_exception option \<times> document" where
  "unlockRecord d =
     (let d1 = closeAllModals d;
          (ex, d2) = updateStatusBadge ''Approved'' ''badge--approved'' d1
      in case ex of Some e \<Rightarrow> (Some e, d2)
         | None \<Rightarrow> (None, showToast Success ''Record unlocked'' d2))"

definition archiveRecord :: "document \<Rightarrow> js_exception option \<times> document" where
  "archiveRecord d =
     (let d1 = closeAllModals d;
          (ex, d2) = updateStatusBadge ''Archived'' ''badge--archived'' d1
      in case ex of Some e \<Rightarrow> (Some e, d2)
         | None \<Rightarrow> (None, showToast Success ''Record archived'' d2))"

section \<open>Record form validation\<close>

text \<open>\<open>String.prototype.trim\<close> strips the WhiteSpace and LineTerminator code units of
  ECMAScript from both ends.\<close>

definition js_whitespace :: "16 word \<Rightarrow> bool" where
  "js_whitespace c \<longleftrightarrow>
     c \<in> set [0x0009, 0x000A, 0x000B, 0x000C, 0x000D, 0x0020, 0x00A0, 0x1680,
              0x2028, 0x2029, 0x202F, 0x205F, 0x3000, 0xFEFF]
     \<or> (0x2000 \<le> c \<and> c \<le> 0x200A)"

definition js_trim :: "js_string \<Rightarrow> js_string" where
  "js_trim s = rev (dropWhile js_whitespace (rev (dropWhile js_whitespace s)))"

text \<open>
  \<^verbatim>\<open>function validateRecordForm(e) {
  e.preventDefault();
  const title = document.getElementById('input-record-title');
  const errorSummary = document.getElementById('form-error-summary');
  let hasError = false;
  document.querySelectorAll('.form-error').forEach(el => el.classList.remove('visible'));
  if (errorSummary) errorSummary.classList.remove('visible');
  if (!title || !title.value.trim()) {
    const err = document.getElementById('field-error-title');
    if (err) err.classList.add('visible');
    hasError = true;
  }
  if (hasError) {
    if (errorSummary) {
      errorSummary.classList.add('visible');
      errorSummary.textContent = 'Please fix the highlighted errors before submitting.';
    }
    return;
  }
  showToast('success', 'Record created successfully!');
  setTimeout(() => { window.location.href = 'record-detail.html'; }, 1200);
}\<close>
  \<open>update_by_id\<close> leaves the document as it is when no element has the id, which is
  the \<open>if (err)\<close> and \<open>if (errorSummary)\<close> of the source. The title's value is read
  where the source reads it, after the error marks have been reset; on an element
  without a \<open>value\<close> the call \<open>title.value.trim()\<close> throws a TypeError and the function
  ends there. The class tokens are literals that pass validation. The assignment to
  \<open>errorSummary.textContent\<close> removes whatever elements stood inside the summary.
\<close>

definition validateRecordForm :: "event \<Rightarrow> document \<Rightarrow> js_exception option \<times> event \<times> document" where
  "validateRecordForm e d =
     (let e' = e\<lparr>defaultPrevented := True\<rparr>;
          d1 = for_each_with_class ''form-error'' (drop_class ''visible'') d;
          d2 = update_by_id ''form-error-summary'' (on_attrs (drop_class ''visible'')) d1;
          blank = (case getElementById ''input-record-title'' d2 of
                     None \<Rightarrow> Inr True
                   | Some title \<Rightarrow>
                       (case Option.bind (attrs_of title) el_value of
                          None \<Rightarrow> Inl TypeError
                        | Some v \<Rightarrow> Inr (js_trim v = [])))
      in case blank of
           Inl ex \<Rightarrow> (Some ex, e', d2)
         | Inr hasError \<Rightarrow>
             let d3 = (if hasError
                       then update_by_id ''field-error-title'' (on_attrs (put_class ''visible'')) d2
                       else d2)
             in if hasError
                then (None, e', update_by_id ''form-error-summary''
                        (\<lambda>s. set_textContent ''Please fix the highlighted errors before submitting.''
                               (on_attrs (put_class ''visible'') s)) d3)
                else (None, e', setTimeout (Navigate ''record-detail.html'') 1200
                        (showToast Success ''Record created successfully!'' d3)))"

abbreviation validated :: "event \<Rightarrow> document \<Rightarrow> document" where
  "validated e d \<equiv> snd (snd (validateRecordForm e d))"

text \<open>The title is filled in when the title input exists and its value is not empty after
  trimming; it is blank when the input is missing or its value trims to the empty
  string. Validation has passed when the redirect to the detail page has been queued.\<close>

definition title_filled :: "document \<Rightarrow> bool" where
  "title_filled d \<longleftrightarrow>
     (case getElementById ''input-record-title'' d of
        None \<Rightarrow> False
      | Some title \<Rightarrow>
          (case Option.bind (attrs_of title) el_value of None \<Rightarrow> False | Some v \<Rightarrow> js_trim v \<noteq> []))"

definition title_blank :: "document \<Rightarrow> bool" where
  "title_blank d \<longleftrightarrow>
     (case getElementById ''input-record-title'' d of
        None \<Rightarrow> True
      | Some title \<Rightarrow>
          (case Option.bind (attrs_of title) el_value of None \<Rightarrow> False | Some v \<Rightarrow> js_trim v = []))"

definition redirect_queued :: "document \<Rightarrow> document \<Rightarrow> bool" where
  "redirect_queued d d' \<longleftrightarrow>
     length (timers d) < length (timers d') \<and>
     last (timers d') = (1200, Navigate ''record-detail.html'')"

section \<open>Statuses, roles and the transition table of the specification\<close>

datatype status = Draft | PendingReview | Approved | Rejected | Locked | Archived

datatype role = Viewer | Editor | Reviewer | Admin

datatype transition = SubmitForReview | Approve | Reject | Lock | Unlock | Archive

datatype workflow_error = NotFound | InvalidTransition | Forbidden | MissingRequiredInput

text \<open>The badge text of each status: five are the literals the handlers write, \<open>Draft\<close> is
  the text of a new record's badge in the keywords guide.\<close>

fun status_label :: "status \<Rightarrow> string" where
  "status_label Draft = ''Draft''"
| "status_label PendingReview = ''Pending Review''"
| "status_label Approved = ''Approved''"
| "status_label Rejected = ''Rejected''"
| "status_label Locked = ''Locked''"
| "status_label Archived = ''Archived''"

fun status_modifier :: "status \<Rightarrow> string" where
  "status_modifier Draft = ''badge--draft''"
| "status_modifier PendingReview = ''badge--pending''"
| "status_modifier Approved = ''badge--approved''"
| "status_modifier Rejected = ''badge--rejected''"
| "status_modifier Locked = ''badge--locked''"
| "status_modifier Archived = ''badge--archived''"

fun role_label :: "role \<Rightarrow> string" where
  "role_label Viewer = ''Viewer''"
| "role_label Editor = ''Editor''"
| "role_label Reviewer = ''Reviewer''"
| "role_label Admin = ''Admin''"

text \<open>A status-modifier class is a class of the form \<open>badge--...\<close>.\<close>

definition is_status_modifier :: "string \<Rightarrow> bool" where
  "is_status_modifier c \<longleftrightarrow> take 7 c = ''badge--''"

text \<open>The transition table of the specification (section 4.1), row by row.\<close>

fun spec_from :: "transition \<Rightarrow> status list" where
  "spec_from SubmitForReview = [Draft]"
| "spec_from Approve = [PendingReview]"
| "spec_from Reject = [PendingReview]"
| "spec_from Lock = [Approved]"
| "spec_from Unlock = [Locked]"
| "spec_from Archive = [Approved, Rejected, Locked]"

fun spec_to :: "transition \<Rightarrow> status" where
  "spec_to SubmitForReview = PendingReview"
| "spec_to Approve = Approved"
| "spec_to Reject = Rejected"
| "spec_to Lock = Locked"
| "spec_to Unlock = Approved"
| "spec_to Archive = Archived"

fun spec_roles :: "transition \<Rightarrow> role list" where
  "spec_roles SubmitForReview = [Editor, Admin]"
| "spec_roles Approve = [Reviewer, Admin]"
| "spec_roles Reject = [Reviewer, Admin]"
| "spec_roles Lock = [Admin]"
| "spec_roles Unlock = [Admin]"
| "spec_roles Archive = [Editor, Admin]"

fun spec_requires_input :: "transition \<Rightarrow> bool" where
  "spec_requires_input Reject = True"
| "spec_requires_input Unlock = True"
| "spec_requires_input _ = False"

text \<open>The guard chain of the specification for a record that exists, in its fixed order:
  status, then role, then required input. \<open>None\<close> means that every guard passes.\<close>

definition spec_guard_error :: "transition \<Rightarrow> status \<Rightarrow> role \<Rightarrow> js_string \<Rightarrow> workflow_error option" where
  "spec_guard_error t st r input =
     (if st \<notin> set (spec_from t) then Some InvalidTransition
      else if r \<notin> set (spec_roles t) then Some Forbidden
      else if spec_requires_input t \<and> js_trim input = [] then Some MissingRequiredInput
      else None)"

text \<open>The statuses that compositions of table rows reach.\<close>

inductive spec_reachable :: "status \<Rightarrow> status \<Rightarrow> bool" where
  here: "spec_reachable s s"
| row: "spec_reachable s s' \<Longrightarrow> s' \<in> set (spec_from t) \<Longrightarrow> spec_reachable s (spec_to t)"

text \<open>
  Modelled from the spec: the record and the actor that the engine of the specification
  takes (section 3) are missing from the sources, where a record is the page itself and
  no actor exists. Only the fields the guards read are kept.
\<close>

record spec_record =
  rec_id :: nat
  rec_status :: status

record actor =
  actor_role :: role

text \<open>
  Modelled from the spec: \<open>canInvoke(role, transitionName)\<close> of section 4.2 is missing
  from the sources. It is the static mapping "derived from the table above".
\<close>

definition canInvoke :: "role \<Rightarrow> transition \<Rightarrow> bool" where
  "canInvoke r t \<longleftrightarrow> r \<in> set (spec_roles t)"

text \<open>
  Modelled from the spec: \<open>availableTransitions(record, actor)\<close> of section 4.4 is
  missing from the sources (app.js has no function that lists or filters transitions).
  The specification describes its result as the set of transition names "computed by
  intersecting From match with role permission".
\<close>

definition availableTransitions :: "spec_record \<Rightarrow> actor \<Rightarrow> transition set" where
  "availableTransitions rcd a =
     {t \<in> set [SubmitForReview, Approve, Reject, Lock, Unlock, Archive].
        rec_status rcd \<in> set (spec_from t)} \<inter>
     {t \<in> set [SubmitForReview, Approve, Reject, Lock, Unlock, Archive].
        canInvoke (actor_role a) t}"

section \<open>What the page shows\<close>

text \<open>The status of the record on the page is the text of its status badge; the classes
  of the badge are those of its class list.\<close>

definition page_status :: "document \<Rightarrow> string option" where
  "page_status d = Option.bind (getElementById ''status-badge'' d) textContent"

definition classes_of :: "node \<Rightarrow> string list" where
  "classes_of n = (case attrs_of n of None \<Rightarrow> [] | Some a \<Rightarrow> classes a)"

definition badge_classes :: "document \<Rightarrow> string list option" where
  "badge_classes d = map_option classes_of (getElementById ''status-badge'' d)"

definition find_testid :: "string \<Rightarrow> document \<Rightarrow> node option" where
  "find_testid t d = find_nodes (\<lambda>a. testid a = Some t) (nodes d)"

text \<open>The signed-in user's role is the text of the role badge; what the user typed into a
  field is the field's value.\<close>

definition page_role :: "document \<Rightarrow> string option" where
  "page_role d = Option.bind (find_testid ''user-role-badge'' d) textContent"

definition input_value :: "string \<Rightarrow> document \<Rightarrow> js_string option" where
  "input_value t d = Option.bind (Option.bind (find_testid t d) attrs_of) el_value"

text \<open>The activity log is the element with test id \<open>activity-log\<close>, entries included.\<close>

definition activity_log :: "document \<Rightarrow> node option" where
  "activity_log d = find_testid ''activity-log'' d"

text \<open>
  The activity log stands apart when it holds neither a status badge, nor a toast
  container, nor a dialog overlay, and the status badge holds no activity log.
\<close>

definition log_apart :: "document \<Rightarrow> bool" where
  "log_apart d \<longleftrightarrow>
     (case getElementById ''status-badge'' d of
        None \<Rightarrow> True
      | Some b \<Rightarrow> find_node (\<lambda>a. testid a = Some ''activity-log'') b = None) \<and>
     (case activity_log d of
        None \<Rightarrow> True
      | Some l \<Rightarrow> find_node (\<lambda>a. el_id a = Some ''status-badge'') l = None \<and>
                 find_node (\<lambda>a. el_id a = Some ''toast-container'') l = None \<and>
                 find_node (has_class ''modal-overlay'') l = None)"

text \<open>
  The newest toast is the last child of the toast container. The page can show a toast
  after the badge has been written when it has a toast container and the status badge
  holds no element with the container's id (the write to the badge removes what the
  badge holds).
\<close>

definition last_toast :: "document \<Rightarrow> node option" where
  "last_toast d =
     (case getElementById ''toast-container'' d of
        Some (Element a cs) \<Rightarrow> (if cs = [] then None else Some (last cs))
      | _ \<Rightarrow> None)"

definition toast_container_kept :: "document \<Rightarrow> bool" where
  "toast_container_kept d \<longleftrightarrow>
     getElementById ''toast-container'' d \<noteq> None \<and>
     (case getElementById ''status-badge'' d of
        None \<Rightarrow> True
      | Some b \<Rightarrow> find_node (\<lambda>a. el_id a = Some ''toast-container'') b = None)"

text \<open>The handler behind each transition name, and a sequence of calls. An exception
  ends the call that threw it, not the calls that follow.\<close>

fun workflow_op :: "transition \<Rightarrow> document \<Rightarrow> js_exception option \<times> document" where
  "workflow_op SubmitForReview = submitForReview"
| "workflow_op Approve = approveRecord"
| "workflow_op Reject = rejectRecord"
| "workflow_op Lock = lockRecord"
| "workflow_op Unlock = unlockRecord"
| "workflow_op Archive = archiveRecord"

fun run_ops :: "transition list \<Rightarrow> document \<Rightarrow> document" where
  "run_ops [] d = d"
| "run_ops (t # ts) d = run_ops ts (snd (workflow_op t d))"

fun op_message :: "transition \<Rightarrow> string" where
  "op_message SubmitForReview = ''Record submitted for review''"
| "op_message Approve = ''Record approved''"
| "op_message Reject = ''Record rejected''"
| "op_message Lock = ''Record locked''"
| "op_message Unlock = ''Record unlocked''"
| "op_message Archive = ''Record archived''"

text \<open>The common shape of the six handlers.\<close>

definition badge_action :: "string \<Rightarrow> string \<Rightarrow> string \<Rightarrow> document \<Rightarrow> document" where
  "badge_action text cls msg d =
     showToast Success msg (update_by_id ''status-badge'' (write_badge text cls) (closeAllModals d))"

text \<open>The first two statements of \<open>validateRecordForm\<close> that write: every error mark and
  the summary lose \<open>visible\<close>.\<close>

definition reset_marks :: "document \<Rightarrow> document" where
  "reset_marks d = update_by_id ''form-error-summary'' (on_attrs (drop_class ''visible''))
                     (for_each_with_class ''form-error'' (drop_class ''visible'') d)"

text \<open>The title's field error can be shown when the page has it and it does not stand
  inside the error summary (the write to the summary removes what the summary holds).\<close>

definition title_error_kept :: "document \<Rightarrow> bool" where
  "title_error_kept d \<longleftrightarrow>
     getElementById ''field-error-title'' d \<noteq> None \<and>
     (case getElementById ''form-error-summary'' d of
        None \<Rightarrow> True
      | Some s \<Rightarrow> find_node (\<lambda>a. el_id a = Some ''field-error-title'') s = None)"

section \<open>Two concrete pages\<close>

text \<open>A record detail page as the guides describe it: toast container, role badge, status
  badge, activity log with one entry, and the reject and unlock dialogs, both open, with
  their text areas.\<close>

definition detail_page :: "status \<Rightarrow> role \<Rightarrow> js_string \<Rightarrow> js_string \<Rightarrow> document" where
  "detail_page st r reason justification =
     \<lparr>nodes =
        [Element \<lparr>node_ref = 0, el_id = Some ''toast-container'', testid = None,
                  classes = [''toast-container''], el_value = None\<rparr> [],
         Element \<lparr>node_ref = 1, el_id = None, testid = Some ''user-role-badge'',
                  classes = [], el_value = None\<rparr> [Text (role_label r)],
         Element \<lparr>node_ref = 2, el_id = Some ''status-badge'', testid = Some ''status-badge'',
                  classes = [''badge'', status_modifier st], el_value = None\<rparr>
           [Text (status_label st)],
         Element \<lparr>node_ref = 3, el_id = None, testid = Some ''activity-log'',
                  classes = [], el_value = None\<rparr>
           [Element \<lparr>node_ref = 4, el_id = None, testid = None,
                     classes = [''log-entry''], el_value = None\<rparr> [Text ''Record created'']],
         Element \<lparr>node_ref = 5, el_id = Some ''modal-reject'', testid = Some ''modal-reject'',
                  classes = [''modal-overlay'', ''visible''], el_value = None\<rparr>
           [Element \<lparr>node_ref = 6, el_id = None, testid = Some ''input-rejection-reason'',
                     classes = [], el_value = Some reason\<rparr> []],
         Element \<lparr>node_ref = 7, el_id = Some ''modal-unlock'', testid = Some ''modal-unlock'',
                  classes = [''modal-overlay'', ''visible''], el_value = None\<rparr>
           [Element \<lparr>node_ref = 8, el_id = None, testid = Some ''input-unlock-reason'',
                     classes = [], el_value = Some justification\<rparr> []]],
      timers = [], next_ref = 9\<rparr>"

text \<open>The activity log of that page.\<close>

definition created_log :: node where
  "created_log =
     Element \<lparr>node_ref = 3, el_id = None, testid = Some ''activity-log'',
              classes = [], el_value = None\<rparr>
       [Element \<lparr>node_ref = 4, el_id = None, testid = None,
                 classes = [''log-entry''], el_value = None\<rparr> [Text ''Record created'']]"

text \<open>The record form: title input, type select, the two field errors and the summary.\<close>

definition form_page :: "js_string \<Rightarrow> js_string \<Rightarrow> document" where
  "form_page title_value type_value =
     \<lparr>nodes =
        [Element \<lparr>node_ref = 0, el_id = Some ''toast-container'', testid = None,
                  classes = [''toast-container''], el_value = None\<rparr> [],
         Element \<lparr>node_ref = 1, el_id = Some ''form-error-summary'',
                  testid = Some ''form-error-summary'',
                  classes = [''form-error-summary'', ''visible''], el_value = None\<rparr> [],
         Element \<lparr>node_ref = 2, el_id = Some ''input-record-title'',
                  testid = Some ''input-record-title'', classes = [],
                  el_value = Some title_value\<rparr> [],
         Element \<lparr>node_ref = 3, el_id = Some ''field-error-title'',
                  testid = Some ''field-error-title'', classes = [''form-error''],
                  el_value = None\<rparr> [Text ''Title is required.''],
         Element \<lparr>node_ref = 4, el_id = Some ''select-record-type'',
                  testid = Some ''select-record-type'', classes = [],
                  el_value = Some type_value\<rparr> [],
         Element \<lparr>node_ref = 5, el_id = Some ''field-error-type'',
                  testid = Some ''field-error-type'', classes = [''form-error'', ''visible''],
                  el_value = None\<rparr> [Text ''Type is required.'']],
      timers = [], next_ref = 6\<rparr>"

text \<open>A page without any element, and the justification of the unlock scenario
  (\<open>audit correction\<close>, as code units).\<close>

definition blank_page :: document where
  "blank_page = \<lparr>nodes = [], timers = [], next_ref = 0\<rparr>"

definition audit_correction :: js_string where
  "audit_correction =
     [0x61, 0x75, 0x64, 0x69, 0x74, 0x20, 0x63, 0x6F, 0x72, 0x72, 0x65, 0x63, 0x74, 0x69, 0x6F, 0x6E]"

section \<open>Facts about trees\<close>

lemma node_forest_induct:
  assumes "\<And>t. Q (Text t)" and "\<And>m. Q (Markup m)"
    and "\<And>a cs. Qs cs \<Longrightarrow> Q (Element a cs)"
    and "Qs []" and "\<And>n ns. Q n \<Longrightarrow> Qs ns \<Longrightarrow> Qs (n # ns)"
  shows "Q n" and "Qs ns"
proof -
  have lift: "(\<And>z. z \<in> set cs \<Longrightarrow> Q z) \<Longrightarrow> Qs cs" for cs
    by (induction cs) (auto intro: assms)
  show q: "Q n" for n
    by (induction n) (auto intro: assms lift)
  show "Qs ns"
    by (rule lift) (rule q)
qed

lemma find_node_Element:
  "find_node P n = Some x \<Longrightarrow> \<exists>a cs. x = Element a cs \<and> P a"
  "find_nodes P ns = Some x \<Longrightarrow> \<exists>a cs. x = Element a cs \<and> P a"
  by (induction n and ns rule: node_forest_induct) (auto split: if_splits option.splits)

lemma find_for_each:
  assumes "\<And>a. P (g a) = P a"
  shows "find_node P (for_each_node g n) = map_option (for_each_node g) (find_node P n)"
    and "find_nodes P (map (for_each_node g) ns) = map_option (for_each_node g) (find_nodes P ns)"
  by (induction n and ns rule: node_forest_induct)
     (auto simp: assms split: option.splits)

lemma update_absent:
  "find_node P n = None \<Longrightarrow> update_node P f n = n"
  "find_nodes P ns = None \<Longrightarrow> update_nodes P f ns = ns"
  by (induction n and ns rule: node_forest_induct)
     (auto split: if_splits option.splits)

lemma find_update_same:
  assumes "\<And>a cs. P a \<Longrightarrow> find_node P (f (Element a cs)) = Some (f (Element a cs))"
  shows "find_node P (update_node P f n) = map_option f (find_node P n)"
    and "find_nodes P (update_nodes P f ns) = map_option f (find_nodes P ns)"
  by (induction n and ns rule: node_forest_induct)
     (auto simp: assms split: option.splits)

lemma find_update_keep:
  "(\<forall>x. find_node P n = Some x \<longrightarrow> find_node R (f x) = find_node R x) \<Longrightarrow>
   (\<forall>l. find_node R n = Some l \<longrightarrow> find_node P l = None) \<Longrightarrow>
   find_node R (update_node P f n) = find_node R n"
  "(\<forall>x. find_nodes P ns = Some x \<longrightarrow> find_node R (f x) = find_node R x) \<Longrightarrow>
   (\<forall>l. find_nodes R ns = Some l \<longrightarrow> find_node P l = None) \<Longrightarrow>
   find_nodes R (update_nodes P f ns) = find_nodes R ns"
proof (induction n and ns rule: node_forest_induct)
  case (3 a cs)
  show ?case
  proof (cases "P a")
    case True
    with 3 show ?thesis by simp
  next
    case False
    show ?thesis
    proof (cases "R a")
      case True
      with 3(3) have "find_node P (Element a cs) = None" by simp
      with False have "find_nodes P cs = None" by simp
      then have "update_nodes P f cs = cs" by (rule update_absent)
      with False True show ?thesis by simp
    next
      case nR: False
      with False 3 show ?thesis by simp
    qed
  qed
next
  case (5 n ns)
  show ?case
  proof (cases "find_node P n")
    case None
    with 5 show ?thesis by (auto split: option.splits)
  next
    case (Some x)
    with 5(3,4) have "find_node R (update_node P f n) = find_node R n"
      by (intro 5(1)) (auto split: option.splits)
    with Some show ?thesis by simp
  qed
qed simp_all

lemma find_update_None_iff:
  "(\<forall>x. find_node P n = Some x \<longrightarrow> (find_node R (f x) = None \<longleftrightarrow> find_node R x = None)) \<Longrightarrow>
   (find_node R (update_node P f n) = None \<longleftrightarrow> find_node R n = None)"
  "(\<forall>x. find_nodes P ns = Some x \<longrightarrow> (find_node R (f x) = None \<longleftrightarrow> find_node R x = None)) \<Longrightarrow>
   (find_nodes R (update_nodes P f ns) = None \<longleftrightarrow> find_nodes R ns = None)"
proof (induction n and ns rule: node_forest_induct)
  case (5 n ns)
  show ?case
  proof (cases "find_node P n")
    case None
    with 5 show ?thesis by (auto split: option.splits)
  next
    case (Some x)
    with 5(3) have "find_node R (update_node P f n) = None \<longleftrightarrow> find_node R n = None"
      by (intro 5(1)) auto
    with Some show ?thesis by (auto split: option.splits)
  qed
qed auto

lemma find_update_stays_None:
  assumes "\<And>a cs. find_node B (Element a cs) = None \<Longrightarrow> find_node B (f (Element a cs)) = None"
  shows "find_node B n = None \<Longrightarrow> find_node B (update_node P f n) = None"
    and "find_nodes B ns = None \<Longrightarrow> find_nodes B (update_nodes P f ns) = None"
proof (induction n and ns rule: node_forest_induct)
  case (3 a cs)
  then show ?case using assms [of a cs] by (auto split: if_splits)
qed (auto split: option.splits if_splits)

lemma for_each_unchanged:
  "find_node C n = None \<Longrightarrow> for_each_node (\<lambda>a. if C a then h a else a) n = n"
  "find_nodes C ns = None \<Longrightarrow> map (for_each_node (\<lambda>a. if C a then h a else a)) ns = ns"
  by (induction n and ns rule: node_forest_induct)
     (auto split: if_splits option.splits)

lemma for_each_clears:
  assumes "\<And>a. \<not> B (g a)"
  shows "find_node B (for_each_node g n) = None"
    and "find_nodes B (map (for_each_node g) ns) = None"
  by (induction n and ns rule: node_forest_induct) (auto simp: assms)

lemma find_nodes_append:
  "find_nodes P (ns @ ms) = (case find_nodes P ns of Some x \<Rightarrow> Some x | None \<Rightarrow> find_nodes P ms)"
  by (induction ns) (auto split: option.splits)

section \<open>Facts about the handlers\<close>

lemma token_error_literals:
  "token_error ''badge--pending'' = None"
  "token_error ''badge--approved'' = None"
  "token_error ''badge--rejected'' = None"
  "token_error ''badge--locked'' = None"
  "token_error ''badge--archived'' = None"
  "token_error ''badge--draft'' = None"
  "token_error ''visible'' = None"
  by (simp_all add: token_error_def ascii_whitespace_def)

lemma class_tokens_badge: "class_tokens ''badge'' = [''badge'']"
  by (simp add: class_tokens_def ascii_whitespace_def)

lemma class_tokens_toast_success:
  "class_tokens ''toast toast-success'' = [''toast'', ''toast-success'']"
  by (simp add: class_tokens_def ascii_whitespace_def)

lemma find_text_children [simp]: "find_nodes P (text_children t) = None"
  by (simp add: text_children_def)

lemma textContent_text_children [simp]: "textContent (Element a (text_children t)) = Some t"
  by (simp add: text_children_def)

lemma write_badge_Element:
  "token_error cls = None \<Longrightarrow>
   write_badge text cls (Element a cs)
   = Element (put_class cls (a\<lparr>classes := [''badge'']\<rparr>)) (text_children text)"
  by (simp add: write_badge_def class_tokens_badge)

lemma el_id_put_class [simp]: "el_id (put_class c a) = el_id a"
  by (simp add: put_class_def)

lemma el_id_drop_class [simp]: "el_id (drop_class c a) = el_id a"
  by (simp add: drop_class_def)

lemma testid_put_class [simp]: "testid (put_class c a) = testid a"
  by (simp add: put_class_def)

lemma testid_drop_class [simp]: "testid (drop_class c a) = testid a"
  by (simp add: drop_class_def)

lemma el_value_put_class [simp]: "el_value (put_class c a) = el_value a"
  by (simp add: put_class_def)

lemma el_value_drop_class [simp]: "el_value (drop_class c a) = el_value a"
  by (simp add: drop_class_def)

lemma updateStatusBadge_eq:
  assumes "token_error cls = None"
  shows "updateStatusBadge text cls d = (None, update_by_id ''status-badge'' (write_badge text cls) d)"
proof (cases "getElementById ''status-badge'' d")
  case None
  then show ?thesis
    by (simp add: updateStatusBadge_def update_by_id_def getElementById_def update_absent)
next
  case (Some b)
  with assms show ?thesis by (simp add: updateStatusBadge_def)
qed

lemma handlers_eq:
  "submitForReview d = (None, badge_action ''Pending Review'' ''badge--pending'' ''Record submitted for review'' d)"
  "approveRecord d = (None, badge_action ''Approved'' ''badge--approved'' ''Record approved'' d)"
  "rejectRecord d = (None, badge_action ''Rejected'' ''badge--rejected'' ''Record rejected'' d)"
  "lockRecord d = (None, badge_action ''Locked'' ''badge--locked'' ''Record locked'' d)"
  "unlockRecord d = (None, badge_action ''Approved'' ''badge--approved'' ''Record unlocked'' d)"
  "archiveRecord d = (None, badge_action ''Archived'' ''badge--archived'' ''Record archived'' d)"
  by (simp_all add: submitForReview_def approveRecord_def rejectRecord_def lockRecord_def
      unlockRecord_def archiveRecord_def badge_action_def updateStatusBadge_eq token_error_literals)

lemma workflow_op_eq:
  "workflow_op t d =
     (None, badge_action (status_label (spec_to t)) (status_modifier (spec_to t)) (op_message t) d)"
  by (cases t) (simp_all add: handlers_eq)

lemma token_error_modifier: "token_error (status_modifier s) = None"
  by (cases s) (simp_all add: token_error_literals)

text \<open>Lookups after each of the three steps of a handler.\<close>

lemma getElementById_closeAllModals:
  "getElementById i (closeAllModals d)
   = map_option (for_each_node (\<lambda>a. if has_class ''modal-overlay'' a then drop_class ''visible'' a else a))
       (getElementById i d)"
  by (simp add: getElementById_def closeAllModals_def for_each_with_class_def find_for_each)

lemma find_testid_closeAllModals:
  "find_testid i (closeAllModals d)
   = map_option (for_each_node (\<lambda>a. if has_class ''modal-overlay'' a then drop_class ''visible'' a else a))
       (find_testid i d)"
  by (simp add: find_testid_def closeAllModals_def for_each_with_class_def find_for_each)

lemma badge_after_write:
  assumes "token_error cls = None"
  shows "getElementById ''status-badge'' (update_by_id ''status-badge'' (write_badge text cls) d)
         = map_option (write_badge text cls) (getElementById ''status-badge'' d)"
  unfolding getElementById_def update_by_id_def
  by (simp add: find_update_same write_badge_Element [OF assms])

lemma find_appendChild:
  assumes "find_node R c = None"
  shows "find_node R (appendChild c x) = None \<longleftrightarrow> find_node R x = None"
  by (cases x) (auto simp: find_nodes_append assms split: option.splits)

lemma find_toast_node [simp]:
  "find_node (\<lambda>a. el_id a = Some i) (toast_node r ty msg) = None"
  "find_node (\<lambda>a. testid a = Some ''activity-log'') (toast_node r Success msg) = None"
  by (simp_all add: toast_node_def)

lemma badge_after_showToast:
  assumes "getElementById ''status-badge'' d = Some b"
    and "find_node (\<lambda>a. el_id a = Some ''toast-container'') b = None"
  shows "getElementById ''status-badge'' (showToast ty msg d) = Some b"
proof (cases "getElementById ''toast-container'' d")
  case None
  with assms show ?thesis by (simp add: showToast_def)
next
  case (Some c)
  have "find_nodes (\<lambda>a. el_id a = Some ''status-badge'')
          (update_nodes (\<lambda>a. el_id a = Some ''toast-container'')
             (appendChild (toast_node (next_ref d) ty msg)) (nodes d))
        = find_nodes (\<lambda>a. el_id a = Some ''status-badge'') (nodes d)"
  proof (rule find_update_keep(2))
    show "\<forall>x. find_nodes (\<lambda>a. el_id a = Some ''toast-container'') (nodes d) = Some x \<longrightarrow>
            find_node (\<lambda>a. el_id a = Some ''status-badge'') (appendChild (toast_node (next_ref d) ty msg) x)
            = find_node (\<lambda>a. el_id a = Some ''status-badge'') x"
    proof (intro allI impI)
      fix x assume "find_nodes (\<lambda>a. el_id a = Some ''toast-container'') (nodes d) = Some x"
      then obtain a cs where "x = Element a cs" "el_id a = Some ''toast-container''"
        using find_node_Element(2) by blast
      then show "find_node (\<lambda>a. el_id a = Some ''status-badge'') (appendChild (toast_node (next_ref d) ty msg) x)
            = find_node (\<lambda>a. el_id a = Some ''status-badge'') x"
        by (simp add: find_nodes_append split: option.splits)
    qed
  next
    show "\<forall>l. find_nodes (\<lambda>a. el_id a = Some ''status-badge'') (nodes d) = Some l \<longrightarrow>
            find_node (\<lambda>a. el_id a = Some ''toast-container'') l = None"
      using assms by (simp add: getElementById_def)
  qed
  with Some assms(1) show ?thesis
    by (simp add: showToast_def Let_def setTimeout_def update_by_id_def getElementById_def)
qed

lemma badge_after_action:
  assumes "token_error cls = None" and "getElementById ''status-badge'' d \<noteq> None"
  shows "\<exists>a. getElementById ''status-badge'' (badge_action text cls msg d)
             = Some (Element a (text_children text))
           \<and> classes a = (if cls = ''badge'' then [''badge''] else [''badge'', cls])"
proof -
  from assms(2) obtain b where "getElementById ''status-badge'' (closeAllModals d) = Some b"
    by (auto simp: getElementById_closeAllModals)
  moreover from this obtain a cs where b: "b = Element a cs" and ida: "el_id a = Some ''status-badge''"
    unfolding getElementById_def using find_node_Element(2) by blast
  ultimately have w: "getElementById ''status-badge''
                     (update_by_id ''status-badge'' (write_badge text cls) (closeAllModals d))
                   = Some (Element (put_class cls (a\<lparr>classes := [''badge'']\<rparr>)) (text_children text))"
    by (simp add: badge_after_write [OF assms(1)] write_badge_Element [OF assms(1)])
  have "getElementById ''status-badge'' (badge_action text cls msg d)
        = Some (Element (put_class cls (a\<lparr>classes := [''badge'']\<rparr>)) (text_children text))"
    unfolding badge_action_def by (rule badge_after_showToast [OF w]) (simp add: ida)
  then show ?thesis by (auto simp: put_class_def)
qed

lemma badge_absent_after_action:
  assumes "getElementById ''status-badge'' d = None"
  shows "getElementById ''status-badge'' (badge_action text cls msg d) = None"
proof -
  let ?d2 = "update_by_id ''status-badge'' (write_badge text cls) (closeAllModals d)"
  from assms have c: "getElementById ''status-badge'' (closeAllModals d) = None"
    by (simp add: getElementById_closeAllModals)
  then have "?d2 = closeAllModals d"
    by (simp add: update_by_id_def getElementById_def update_absent)
  with c have n: "getElementById ''status-badge'' ?d2 = None" by simp
  show ?thesis
  proof (cases "getElementById ''toast-container'' ?d2")
    case None
    with n show ?thesis by (simp add: badge_action_def showToast_def)
  next
    case (Some x)
    have "find_nodes (\<lambda>a. el_id a = Some ''status-badge'')
            (update_nodes (\<lambda>a. el_id a = Some ''toast-container'')
               (appendChild (toast_node (next_ref ?d2) Success msg)) (nodes ?d2)) = None"
      using n
      by (subst find_update_None_iff(2))
         (auto simp: getElementById_def find_appendChild)
    with Some show ?thesis
      by (simp add: badge_action_def showToast_def Let_def setTimeout_def update_by_id_def
          getElementById_def)
  qed
qed

lemma page_status_badge_action:
  assumes "token_error cls = None"
  shows "page_status (badge_action text cls msg d)
         = (if getElementById ''status-badge'' d = None then None else Some text)"
proof (cases "getElementById ''status-badge'' d")
  case None
  then show ?thesis by (simp add: page_status_def badge_absent_after_action)
next
  case (Some b)
  then obtain a where "getElementById ''status-badge'' (badge_action text cls msg d)
                       = Some (Element a (text_children text))"
    using badge_after_action [OF assms, of d "text" msg] by auto
  with Some show ?thesis by (simp add: page_status_def del: textContent.simps)
qed

lemma badge_classes_badge_action:
  assumes "token_error cls = None"
  shows "badge_classes (badge_action text cls msg d)
         = (if getElementById ''status-badge'' d = None then None
            else Some (if cls = ''badge'' then [''badge''] else [''badge'', cls]))"
proof (cases "getElementById ''status-badge'' d")
  case None
  then show ?thesis by (simp add: badge_classes_def badge_absent_after_action)
next
  case (Some b)
  then obtain a where "getElementById ''status-badge'' (badge_action text cls msg d)
                       = Some (Element a (text_children text))"
    and "classes a = (if cls = ''badge'' then [''badge''] else [''badge'', cls])"
    using badge_after_action [OF assms, of d "text" msg] by auto
  with Some show ?thesis by (simp add: badge_classes_def classes_of_def)
qed

subsection \<open>The activity log and the toast\<close>

lemma find_update_append_keep:
  assumes "find_node R t = None"
  shows "(\<forall>l. find_node R n = Some l \<longrightarrow> find_node P l = None) \<Longrightarrow>
         find_node R (update_node P (appendChild t) n) = find_node R n"
    and "(\<forall>l. find_nodes R ns = Some l \<longrightarrow> find_node P l = None) \<Longrightarrow>
         find_nodes R (update_nodes P (appendChild t) ns) = find_nodes R ns"
proof (induction n and ns rule: node_forest_induct)
  case (3 a cs)
  show ?case
  proof (cases "P a")
    case True
    with 3(2) have "\<not> R a" by auto
    with True show ?thesis by (simp add: find_nodes_append assms split: option.splits)
  next
    case False
    show ?thesis
    proof (cases "R a")
      case True
      with 3(2) False have "find_nodes P cs = None" by simp
      then have "update_nodes P (appendChild t) cs = cs" by (rule update_absent)
      with False True show ?thesis by simp
    next
      case nR: False
      with False 3 show ?thesis by simp
    qed
  qed
next
  case (5 n ns)
  show ?case
  proof (cases "find_node P n")
    case None
    with 5 show ?thesis by (auto split: option.splits)
  next
    case (Some x)
    with 5(3) have "find_node R (update_node P (appendChild t) n) = find_node R n"
      by (intro 5(1)) (auto split: option.splits)
    with Some show ?thesis by simp
  qed
qed simp_all

lemma frame_closeAllModals [simp]:
  "timers (closeAllModals d) = timers d" "next_ref (closeAllModals d) = next_ref d"
  by (simp_all add: closeAllModals_def for_each_with_class_def)

lemma frame_update_by_id [simp]:
  "timers (update_by_id i f d) = timers d" "next_ref (update_by_id i f d) = next_ref d"
  by (simp_all add: update_by_id_def)

lemma activity_log_closeAllModals:
  assumes "log_apart d"
  shows "activity_log (closeAllModals d) = activity_log d"
proof (cases "activity_log d")
  case None
  then show ?thesis by (simp add: activity_log_def find_testid_closeAllModals)
next
  case (Some l)
  with assms have "find_node (has_class ''modal-overlay'') l = None"
    by (simp add: log_apart_def)
  then have "for_each_node (\<lambda>a. if has_class ''modal-overlay'' a then drop_class ''visible'' a else a) l = l"
    by (rule for_each_unchanged)
  with Some show ?thesis by (simp add: activity_log_def find_testid_closeAllModals)
qed

lemma activity_log_write_badge:
  assumes "log_apart d" and "token_error cls = None"
  shows "activity_log (update_by_id ''status-badge'' (write_badge text cls) (closeAllModals d))
         = activity_log d"
proof -
  let ?R = "\<lambda>a. testid a = Some ''activity-log''"
  let ?B = "\<lambda>a. el_id a = Some ''status-badge''"
  let ?d1 = "closeAllModals d"
  have "find_nodes ?R (update_nodes ?B (write_badge text cls) (nodes ?d1)) = find_nodes ?R (nodes ?d1)"
  proof (rule find_update_keep(2))
    show "\<forall>x. find_nodes ?B (nodes ?d1) = Some x \<longrightarrow>
            find_node ?R (write_badge text cls x) = find_node ?R x"
    proof (intro allI impI)
      fix x assume x: "find_nodes ?B (nodes ?d1) = Some x"
      then have "getElementById ''status-badge'' (closeAllModals d) = Some x"
        by (simp add: getElementById_def)
      then obtain b where b: "getElementById ''status-badge'' d = Some b"
        and xb: "x = for_each_node (\<lambda>a. if has_class ''modal-overlay'' a then drop_class ''visible'' a else a) b"
        by (auto simp: getElementById_closeAllModals)
      from assms(1) b have "find_node ?R b = None" by (simp add: log_apart_def)
      then have n: "find_node ?R x = None" by (simp add: xb find_for_each)
      from x obtain a cs where e: "x = Element a cs" using find_node_Element(2) by blast
      with n have "\<not> ?R a" by (auto split: if_splits)
      then have "find_node ?R (write_badge text cls x) = None"
        by (simp add: e write_badge_Element [OF assms(2)])
      with n show "find_node ?R (write_badge text cls x) = find_node ?R x" by simp
    qed
  next
    show "\<forall>l. find_nodes ?R (nodes ?d1) = Some l \<longrightarrow> find_node ?B l = None"
      using assms(1) activity_log_closeAllModals [OF assms(1)]
      by (auto simp: log_apart_def activity_log_def find_testid_def split: option.splits)
  qed
  then show ?thesis
    using activity_log_closeAllModals [OF assms(1)]
    by (simp add: activity_log_def find_testid_def update_by_id_def)
qed

lemma activity_log_showToast:
  assumes "\<forall>l. activity_log d = Some l \<longrightarrow> find_node (\<lambda>a. el_id a = Some ''toast-container'') l = None"
  shows "activity_log (showToast Success msg d) = activity_log d"
proof (cases "getElementById ''toast-container'' d")
  case None
  then show ?thesis by (simp add: showToast_def)
next
  case (Some c)
  have "find_nodes (\<lambda>a. testid a = Some ''activity-log'')
          (update_nodes (\<lambda>a. el_id a = Some ''toast-container'')
             (appendChild (toast_node (next_ref d) Success msg)) (nodes d))
        = find_nodes (\<lambda>a. testid a = Some ''activity-log'') (nodes d)"
    by (rule find_update_append_keep(2))
       (use assms in \<open>simp_all add: activity_log_def find_testid_def\<close>)
  with Some show ?thesis
    by (simp add: showToast_def Let_def setTimeout_def update_by_id_def activity_log_def
        find_testid_def)
qed

lemma activity_log_badge_action:
  assumes "log_apart d" and "token_error cls = None"
  shows "activity_log (badge_action text cls msg d) = activity_log d"
proof -
  let ?d2 = "update_by_id ''status-badge'' (write_badge text cls) (closeAllModals d)"
  have w: "activity_log ?d2 = activity_log d"
    using assms by (rule activity_log_write_badge)
  have "activity_log (showToast Success msg ?d2) = activity_log ?d2"
    by (rule activity_log_showToast)
       (use assms(1) w in \<open>auto simp: log_apart_def split: option.splits\<close>)
  with w show ?thesis by (simp add: badge_action_def)
qed

lemma container_after_write:
  assumes "toast_container_kept d" and "token_error cls = None"
  shows "getElementById ''toast-container''
           (update_by_id ''status-badge'' (write_badge text cls) (closeAllModals d)) \<noteq> None"
proof -
  let ?T = "\<lambda>a. el_id a = Some ''toast-container''"
  let ?B = "\<lambda>a. el_id a = Some ''status-badge''"
  let ?d1 = "closeAllModals d"
  have "find_nodes ?T (update_nodes ?B (write_badge text cls) (nodes ?d1)) = None
        \<longleftrightarrow> find_nodes ?T (nodes ?d1) = None"
  proof (rule find_update_None_iff(2), intro allI impI)
    fix x assume x: "find_nodes ?B (nodes ?d1) = Some x"
    then have "getElementById ''status-badge'' (closeAllModals d) = Some x"
      by (simp add: getElementById_def)
    then obtain b where b: "getElementById ''status-badge'' d = Some b"
      and xb: "x = for_each_node (\<lambda>a. if has_class ''modal-overlay'' a then drop_class ''visible'' a else a) b"
      by (auto simp: getElementById_closeAllModals)
    from assms(1) b have "find_node ?T b = None" by (simp add: toast_container_kept_def)
    then have n: "find_node ?T x = None" by (simp add: xb find_for_each)
    from x obtain a cs where e: "x = Element a cs" using find_node_Element(2) by blast
    with n have "\<not> ?T a" by (auto split: if_splits)
    then have "find_node ?T (write_badge text cls x) = None"
      by (simp add: e write_badge_Element [OF assms(2)])
    with n show "find_node ?T (write_badge text cls x) = None \<longleftrightarrow> find_node ?T x = None" by simp
  qed
  moreover from assms(1) have "find_nodes ?T (nodes ?d1) \<noteq> None"
    using getElementById_closeAllModals [of "''toast-container''" d]
    by (auto simp: toast_container_kept_def getElementById_def)
  ultimately show ?thesis
    by (simp add: getElementById_def update_by_id_def)
qed

lemma last_toast_showToast:
  assumes "getElementById ''toast-container'' d \<noteq> None"
  shows "last_toast (showToast ty msg d) = Some (toast_node (next_ref d) ty msg)"
    and "timers (showToast ty msg d) = timers d @ [(4000, RemoveNode (next_ref d))]"
    and "next_ref (showToast ty msg d) = Suc (next_ref d)"
proof -
  from assms obtain c where c: "getElementById ''toast-container'' d = Some c" by auto
  then obtain a cs where e: "c = Element a cs"
    unfolding getElementById_def using find_node_Element(2) by blast
  have "find_nodes (\<lambda>a. el_id a = Some ''toast-container'')
          (update_nodes (\<lambda>a. el_id a = Some ''toast-container'')
             (appendChild (toast_node (next_ref d) ty msg)) (nodes d))
        = map_option (appendChild (toast_node (next_ref d) ty msg))
            (find_nodes (\<lambda>a. el_id a = Some ''toast-container'') (nodes d))"
    by (rule find_update_same(2)) simp
  with c e show "last_toast (showToast ty msg d) = Some (toast_node (next_ref d) ty msg)"
    by (simp add: last_toast_def showToast_def Let_def setTimeout_def update_by_id_def
        getElementById_def)
  from c show "timers (showToast ty msg d) = timers d @ [(4000, RemoveNode (next_ref d))]"
    and "next_ref (showToast ty msg d) = Suc (next_ref d)"
    by (simp_all add: showToast_def Let_def setTimeout_def update_by_id_def)
qed

lemma toast_badge_action:
  assumes "toast_container_kept d" and "token_error cls = None"
  shows "last_toast (badge_action text cls msg d) = Some (toast_node (next_ref d) Success msg)"
    and "timers (badge_action text cls msg d) = timers d @ [(4000, RemoveNode (next_ref d))]"
proof -
  let ?d2 = "update_by_id ''status-badge'' (write_badge text cls) (closeAllModals d)"
  have c: "getElementById ''toast-container'' ?d2 \<noteq> None"
    using assms by (rule container_after_write)
  show "last_toast (badge_action text cls msg d) = Some (toast_node (next_ref d) Success msg)"
    using last_toast_showToast(1) [OF c] by (simp add: badge_action_def)
  show "timers (badge_action text cls msg d) = timers d @ [(4000, RemoveNode (next_ref d))]"
    using last_toast_showToast(2) [OF c] by (simp add: badge_action_def)
qed

subsection \<open>After a whole handler\<close>

lemma badge_node_after_action:
  assumes "token_error cls = None" and "getElementById ''status-badge'' d = Some b"
  shows "\<exists>a cs. b = Element a cs \<and> el_id a = Some ''status-badge'' \<and>
           getElementById ''status-badge'' (badge_action text cls msg d)
           = Some (Element (put_class cls ((if has_class ''modal-overlay'' a then drop_class ''visible'' a else a)
                              \<lparr>classes := [''badge'']\<rparr>)) (text_children text))"
proof -
  from assms(2) obtain a cs where b: "b = Element a cs" and ida: "el_id a = Some ''status-badge''"
    unfolding getElementById_def using find_node_Element(2) by blast
  let ?a = "if has_class ''modal-overlay'' a then drop_class ''visible'' a else a"
  have w: "getElementById ''status-badge''
             (update_by_id ''status-badge'' (write_badge text cls) (closeAllModals d))
           = Some (Element (put_class cls (?a\<lparr>classes := [''badge'']\<rparr>)) (text_children text))"
    using assms(2) b
    by (simp add: badge_after_write [OF assms(1)] getElementById_closeAllModals
        write_badge_Element [OF assms(1)])
  have "getElementById ''status-badge'' (badge_action text cls msg d)
        = Some (Element (put_class cls (?a\<lparr>classes := [''badge'']\<rparr>)) (text_children text))"
    unfolding badge_action_def by (rule badge_after_showToast [OF w]) (simp add: ida)
  with b ida show ?thesis by blast
qed

lemma log_apart_badge_action:
  assumes "log_apart d" and "token_error cls = None"
  shows "log_apart (badge_action text cls msg d)"
proof -
  have l: "activity_log (badge_action text cls msg d) = activity_log d"
    using assms by (rule activity_log_badge_action)
  show ?thesis
  proof (cases "getElementById ''status-badge'' d")
    case None
    then have "getElementById ''status-badge'' (badge_action text cls msg d) = None"
      by (rule badge_absent_after_action)
    with assms(1) l show ?thesis by (simp add: log_apart_def)
  next
    case (Some b)
    from badge_node_after_action [OF assms(2) Some, of "text" msg]
    obtain a cs where b: "b = Element a cs"
      and after: "getElementById ''status-badge'' (badge_action text cls msg d)
           = Some (Element (put_class cls ((if has_class ''modal-overlay'' a then drop_class ''visible'' a else a)
                              \<lparr>classes := [''badge'']\<rparr>)) (text_children text))"
      by blast
    from assms(1) Some b have "testid a \<noteq> Some ''activity-log''"
      by (auto simp: log_apart_def split: if_splits)
    with assms(1) l after show ?thesis by (simp add: log_apart_def)
  qed
qed

lemma toast_container_kept_badge_action:
  assumes "toast_container_kept d" and "token_error cls = None"
  shows "toast_container_kept (badge_action text cls msg d)"
proof -
  have "last_toast (badge_action text cls msg d) \<noteq> None"
    using toast_badge_action(1) [OF assms, of "text" msg] by simp
  then have c: "getElementById ''toast-container'' (badge_action text cls msg d) \<noteq> None"
    by (auto simp: last_toast_def split: option.splits)
  show ?thesis
  proof (cases "getElementById ''status-badge'' d")
    case None
    then have "getElementById ''status-badge'' (badge_action text cls msg d) = None"
      by (rule badge_absent_after_action)
    with c show ?thesis by (simp add: toast_container_kept_def)
  next
    case (Some b)
    from badge_node_after_action [OF assms(2) Some, of "text" msg]
    obtain a cs where ida: "el_id a = Some ''status-badge''"
      and after: "getElementById ''status-badge'' (badge_action text cls msg d)
           = Some (Element (put_class cls ((if has_class ''modal-overlay'' a then drop_class ''visible'' a else a)
                              \<lparr>classes := [''badge'']\<rparr>)) (text_children text))"
      by blast
    with c show ?thesis by (simp add: toast_container_kept_def)
  qed
qed

lemma next_ref_badge_action:
  assumes "toast_container_kept d" and "token_error cls = None"
  shows "next_ref (badge_action text cls msg d) = Suc (next_ref d)"
  using last_toast_showToast(3) [OF container_after_write [OF assms]]
  by (simp add: badge_action_def)

text \<open>The handlers through \<open>workflow_op\<close>.\<close>

lemma fst_workflow_op: "fst (workflow_op t d) = None"
  by (simp add: workflow_op_eq)

lemma page_status_workflow_op:
  "page_status (snd (workflow_op t d))
   = (if getElementById ''status-badge'' d = None then None else Some (status_label (spec_to t)))"
  by (simp add: workflow_op_eq page_status_badge_action token_error_modifier)

lemma badge_classes_workflow_op:
  "badge_classes (snd (workflow_op t d))
   = (if getElementById ''status-badge'' d = None then None
      else Some [''badge'', status_modifier (spec_to t)])"
proof -
  have "status_modifier (spec_to t) \<noteq> ''badge''" by (cases t) simp_all
  then show ?thesis
    by (simp add: workflow_op_eq badge_classes_badge_action token_error_modifier)
qed

lemma activity_log_workflow_op:
  "log_apart d \<Longrightarrow> activity_log (snd (workflow_op t d)) = activity_log d"
  by (simp add: workflow_op_eq activity_log_badge_action token_error_modifier)

lemma log_apart_workflow_op:
  "log_apart d \<Longrightarrow> log_apart (snd (workflow_op t d))"
  by (simp add: workflow_op_eq log_apart_badge_action token_error_modifier)

lemma toast_workflow_op:
  assumes "toast_container_kept d"
  shows "last_toast (snd (workflow_op t d)) = Some (toast_node (next_ref d) Success (op_message t))"
    and "timers (snd (workflow_op t d)) = timers d @ [(4000, RemoveNode (next_ref d))]"
    and "toast_container_kept (snd (workflow_op t d))"
    and "next_ref (snd (workflow_op t d)) = Suc (next_ref d)"
  using assms
  by (simp_all add: workflow_op_eq toast_badge_action toast_container_kept_badge_action
      next_ref_badge_action token_error_modifier)

lemma page_status_Some_badge: "page_status d = Some x \<Longrightarrow> getElementById ''status-badge'' d \<noteq> None"
  by (cases "getElementById ''status-badge'' d") (simp_all add: page_status_def)

lemma status_label_inj: "status_label a = status_label b \<longleftrightarrow> a = b"
  by (cases a; cases b) simp_all

lemma all_statuses_reachable: "spec_reachable Draft s"
proof -
  have d: "spec_reachable Draft Draft" by (rule spec_reachable.here)
  have p: "spec_reachable Draft PendingReview"
    using spec_reachable.row [OF d, of SubmitForReview] by simp
  have a: "spec_reachable Draft Approved"
    using spec_reachable.row [OF p, of Approve] by simp
  have r: "spec_reachable Draft Rejected"
    using spec_reachable.row [OF p, of Reject] by simp
  have l: "spec_reachable Draft Locked"
    using spec_reachable.row [OF a, of Lock] by simp
  have x: "spec_reachable Draft Archived"
    using spec_reachable.row [OF l, of Archive] by simp
  from d p a r l x show ?thesis by (cases s) simp_all
qed

lemma run_ops_status:
  "page_status d = Some (status_label s0) \<Longrightarrow>
   \<exists>s. page_status (run_ops ts d) = Some (status_label s)"
proof (induction ts arbitrary: d s0)
  case Nil
  then show ?case by auto
next
  case (Cons t ts)
  from Cons.prems have "getElementById ''status-badge'' d \<noteq> None"
    by (rule page_status_Some_badge)
  then have "page_status (snd (workflow_op t d)) = Some (status_label (spec_to t))"
    by (simp add: page_status_workflow_op)
  from Cons.IH [OF this] show ?case by simp
qed

subsection \<open>The concrete detail page\<close>

lemma detail_page_badge:
  "getElementById ''status-badge'' (detail_page st r reason just) \<noteq> None"
  by (simp add: getElementById_def detail_page_def)

lemma detail_page_status: "page_status (detail_page st r reason just) = Some (status_label st)"
  by (simp add: page_status_def getElementById_def detail_page_def)

lemma detail_page_classes:
  "badge_classes (detail_page st r reason just) = Some [''badge'', status_modifier st]"
  by (simp add: badge_classes_def classes_of_def getElementById_def detail_page_def)

lemma detail_page_role: "page_role (detail_page st r reason just) = Some (role_label r)"
  by (simp add: page_role_def find_testid_def detail_page_def)

lemma detail_page_inputs:
  "input_value ''input-rejection-reason'' (detail_page st r reason just) = Some reason"
  "input_value ''input-unlock-reason'' (detail_page st r reason just) = Some just"
  by (simp_all add: input_value_def find_testid_def detail_page_def)

lemma detail_page_log: "activity_log (detail_page st r reason just) = Some created_log"
  by (simp add: activity_log_def find_testid_def detail_page_def created_log_def)

lemma detail_page_log_apart: "log_apart (detail_page st r reason just)"
  by (simp add: log_apart_def detail_page_log)
     (simp add: getElementById_def detail_page_def created_log_def has_class_def)

lemma detail_page_toast: "toast_container_kept (detail_page st r reason just)"
  by (simp add: toast_container_kept_def getElementById_def detail_page_def)

lemma detail_page_next_ref: "next_ref (detail_page st r reason just) = 9"
  by (simp add: detail_page_def)

section \<open>The workflow claims\<close>

text \<open>
  Claim C1. Start from a page whose badge reads \<open>Draft\<close> and call the six workflow
  handlers in any order, any number of times. After every call the badge text is the
  label of one of the six statuses, and that status is one that rows of the transition
  table reach from \<open>Draft\<close>. (The calls themselves need not follow rows of the table;
  the claim is about which statuses can be seen.)
\<close>
theorem status_always_one_of_six:
  assumes "page_status d = Some (status_label Draft)"
  shows "\<exists>s. page_status (run_ops ts d) = Some (status_label s) \<and> spec_reachable Draft s"
  using run_ops_status [OF assms, of ts] all_statuses_reachable by blast

text \<open>C1 at a concrete page: a draft record, then \<open>lockRecord\<close> and \<open>rejectRecord\<close>.\<close>
theorem status_always_one_of_six_witness:
  "page_status (detail_page Draft Editor [] []) = Some (status_label Draft) \<and>
   (\<exists>s. page_status (run_ops [Lock, Reject] (detail_page Draft Editor [] [])) = Some (status_label s)
        \<and> spec_reachable Draft s)"
  using status_always_one_of_six [of "detail_page Draft Editor [] []" "[Lock, Reject]"]
  by (simp add: detail_page_status)

text \<open>
  Claim C2 says that a request whose guard fails leaves the status as it is. It fails on
  the code: on a \<open>Draft\<close> record with a \<open>Viewer\<close> signed in, the guard chain of the
  specification answers \<open>InvalidTransition\<close> for Lock, yet \<open>lockRecord\<close> turns the
  status into \<open>Locked\<close>.
\<close>
theorem lock_on_draft_changes_status:
  "spec_guard_error Lock Draft Viewer [] = Some InvalidTransition \<and>
   page_role (detail_page Draft Viewer [] []) = Some ''Viewer'' \<and>
   page_status (detail_page Draft Viewer [] []) = Some ''Draft'' \<and>
   page_status (snd (lockRecord (detail_page Draft Viewer [] []))) = Some ''Locked''"
  using page_status_workflow_op [of Lock "detail_page Draft Viewer [] []"]
  by (simp add: spec_guard_error_def detail_page_role detail_page_status detail_page_badge)

text \<open>
  Claim C2 as amended. The handlers test one thing only, that the status badge exists.
  Without a badge the status is left as it is; with a badge the status becomes the
  target of the transition, whatever the current status, the role and the inputs on the
  page. No handler throws. No handler emits an entry: on every page whose activity log
  stands apart (it holds neither the badge, nor the toast container, nor a dialog
  overlay, and the badge does not hold it) the activity log after the call, entries
  included, is the activity log before the call.
\<close>
theorem workflow_op_only_guard_is_badge:
  "fst (workflow_op t d) = None \<and>
   page_status (snd (workflow_op t d))
     = (if getElementById ''status-badge'' d = None then page_status d
        else Some (status_label (spec_to t))) \<and>
   (log_apart d \<longrightarrow> activity_log (snd (workflow_op t d)) = activity_log d)"
proof -
  have "getElementById ''status-badge'' d = None \<Longrightarrow> page_status d = None"
    by (simp add: page_status_def)
  then show ?thesis
    by (simp add: fst_workflow_op page_status_workflow_op activity_log_workflow_op)
qed

text \<open>C2 as amended, at a draft record's page, whose log keeps its one entry, and at a page
  without elements.\<close>
theorem workflow_op_only_guard_is_badge_witness:
  "log_apart (detail_page Draft Viewer [] []) \<and>
   activity_log (detail_page Draft Viewer [] []) = Some created_log \<and>
   page_status (snd (workflow_op Lock (detail_page Draft Viewer [] []))) = Some ''Locked'' \<and>
   activity_log (snd (workflow_op Lock (detail_page Draft Viewer [] []))) = Some created_log \<and>
   page_status (snd (workflow_op Lock blank_page)) = None"
  using workflow_op_only_guard_is_badge [of Lock "detail_page Draft Viewer [] []"]
    workflow_op_only_guard_is_badge [of Lock blank_page]
  by (simp add: detail_page_badge detail_page_log detail_page_log_apart)
     (simp add: blank_page_def getElementById_def page_status_def)

text \<open>
  Claim C3 says that Reject with an empty reason fails with \<open>MissingRequiredInput\<close> and
  leaves the status. It fails on the code: on a \<open>PendingReview\<close> record with a
  \<open>Reviewer\<close> and an empty reason field, where the guard chain of the specification
  answers \<open>MissingRequiredInput\<close>, \<open>rejectRecord\<close> returns normally and the status is
  \<open>Rejected\<close>.
\<close>
theorem reject_without_reason_succeeds:
  "spec_guard_error Reject PendingReview Reviewer [] = Some MissingRequiredInput \<and>
   input_value ''input-rejection-reason'' (detail_page PendingReview Reviewer [] []) = Some [] \<and>
   page_status (detail_page PendingReview Reviewer [] []) = Some ''Pending Review'' \<and>
   fst (rejectRecord (detail_page PendingReview Reviewer [] [])) = None \<and>
   page_status (snd (rejectRecord (detail_page PendingReview Reviewer [] []))) = Some ''Rejected''"
  using page_status_workflow_op [of Reject "detail_page PendingReview Reviewer [] []"]
    fst_workflow_op [of Reject "detail_page PendingReview Reviewer [] []"]
  by (simp add: spec_guard_error_def js_trim_def detail_page_inputs detail_page_status
      detail_page_badge)

text \<open>
  Claim C3 as amended. \<open>rejectRecord\<close> reads no reason. Whenever the page has the
  status badge, and so for a \<open>PendingReview\<close> record, a \<open>Reviewer\<close> or \<open>Admin\<close> and a
  non-empty reason, but for an empty reason as well, the call does not throw and the
  status becomes \<open>Rejected\<close> with the matching badge class. Where the page has a toast
  container that the badge does not hold, the success toast \<open>Record rejected\<close> is the
  container's last child after the call.
\<close>
theorem rejectRecord_checks_no_reason:
  assumes "getElementById ''status-badge'' d \<noteq> None"
  shows "fst (rejectRecord d) = None \<and>
         page_status (snd (rejectRecord d)) = Some ''Rejected'' \<and>
         badge_classes (snd (rejectRecord d)) = Some [''badge'', ''badge--rejected''] \<and>
         (toast_container_kept d \<longrightarrow>
            last_toast (snd (rejectRecord d))
              = Some (toast_node (next_ref d) Success ''Record rejected''))"
  using assms fst_workflow_op [of Reject d] page_status_workflow_op [of Reject d]
    badge_classes_workflow_op [of Reject d] toast_workflow_op(1) [of d Reject]
  by simp

text \<open>C3 as amended, at a pending record with an \<open>Admin\<close> and the reason \<open>bad\<close>.\<close>
theorem rejectRecord_checks_no_reason_witness:
  "getElementById ''status-badge'' (detail_page PendingReview Admin [0x62, 0x61, 0x64] []) \<noteq> None \<and>
   toast_container_kept (detail_page PendingReview Admin [0x62, 0x61, 0x64] []) \<and>
   input_value ''input-rejection-reason'' (detail_page PendingReview Admin [0x62, 0x61, 0x64] [])
     = Some [0x62, 0x61, 0x64] \<and>
   fst (rejectRecord (detail_page PendingReview Admin [0x62, 0x61, 0x64] [])) = None \<and>
   page_status (snd (rejectRecord (detail_page PendingReview Admin [0x62, 0x61, 0x64] [])))
     = Some ''Rejected'' \<and>
   last_toast (snd (rejectRecord (detail_page PendingReview Admin [0x62, 0x61, 0x64] [])))
     = Some (toast_node 9 Success ''Record rejected'')"
  using rejectRecord_checks_no_reason [of "detail_page PendingReview Admin [0x62, 0x61, 0x64] []"]
  by (simp add: detail_page_badge detail_page_inputs detail_page_toast detail_page_next_ref)

text \<open>
  Claim C4 says that Approve by a \<open>Viewer\<close> fails with \<open>Forbidden\<close> and leaves the
  status \<open>PendingReview\<close>. It fails on the code: \<open>approveRecord\<close> returns normally and
  the status is \<open>Approved\<close>.
\<close>
theorem viewer_approves:
  "spec_guard_error Approve PendingReview Viewer [] = Some Forbidden \<and>
   page_role (detail_page PendingReview Viewer [] []) = Some ''Viewer'' \<and>
   page_status (detail_page PendingReview Viewer [] []) = Some ''Pending Review'' \<and>
   fst (approveRecord (detail_page PendingReview Viewer [] [])) = None \<and>
   page_status (snd (approveRecord (detail_page PendingReview Viewer [] []))) = Some ''Approved''"
  using page_status_workflow_op [of Approve "detail_page PendingReview Viewer [] []"]
    fst_workflow_op [of Approve "detail_page PendingReview Viewer [] []"]
  by (simp add: spec_guard_error_def detail_page_role detail_page_status detail_page_badge)

text \<open>
  Claim C4 as amended. \<open>approveRecord\<close> does not look at the role. Whenever the page
  has the status badge, and so for a \<open>PendingReview\<close> record with a \<open>Viewer\<close>, the call
  does not throw and the status becomes \<open>Approved\<close>. Where the page has a toast
  container that the badge does not hold, the success toast \<open>Record approved\<close> is the
  container's last child after the call. Where the activity log stands apart, it is
  after the call, entries included, what it was before: no entry is appended.
\<close>
theorem approveRecord_ignores_role:
  assumes "getElementById ''status-badge'' d \<noteq> None"
  shows "fst (approveRecord d) = None \<and>
         page_status (snd (approveRecord d)) = Some ''Approved'' \<and>
         (toast_container_kept d \<longrightarrow>
            last_toast (snd (approveRecord d))
              = Some (toast_node (next_ref d) Success ''Record approved'')) \<and>
         (log_apart d \<longrightarrow> activity_log (snd (approveRecord d)) = activity_log d)"
  using assms fst_workflow_op [of Approve d] page_status_workflow_op [of Approve d]
    toast_workflow_op(1) [of d Approve] activity_log_workflow_op [of d Approve]
  by simp

text \<open>C4 as amended, at a pending record with a \<open>Viewer\<close> signed in.\<close>
theorem approveRecord_ignores_role_witness:
  "getElementById ''status-badge'' (detail_page PendingReview Viewer [] []) \<noteq> None \<and>
   toast_container_kept (detail_page PendingReview Viewer [] []) \<and>
   log_apart (detail_page PendingReview Viewer [] []) \<and>
   page_role (detail_page PendingReview Viewer [] []) = Some ''Viewer'' \<and>
   page_status (snd (approveRecord (detail_page PendingReview Viewer [] []))) = Some ''Approved'' \<and>
   last_toast (snd (approveRecord (detail_page PendingReview Viewer [] [])))
     = Some (toast_node 9 Success ''Record approved'') \<and>
   activity_log (snd (approveRecord (detail_page PendingReview Viewer [] []))) = Some created_log"
  using approveRecord_ignores_role [of "detail_page PendingReview Viewer [] []"]
  by (simp add: detail_page_badge detail_page_role detail_page_log detail_page_log_apart
      detail_page_toast detail_page_next_ref)

text \<open>
  Claim C5 says that Unlock without justification fails with \<open>MissingRequiredInput\<close> and
  leaves the record \<open>Locked\<close>. It fails on the code: on a \<open>Locked\<close> record with an
  \<open>Admin\<close> and an empty justification field, \<open>unlockRecord\<close> returns normally and the
  status is \<open>Approved\<close>.
\<close>
theorem unlock_without_justification:
  "spec_guard_error Unlock Locked Admin [] = Some MissingRequiredInput \<and>
   input_value ''input-unlock-reason'' (detail_page Locked Admin [] []) = Some [] \<and>
   page_status (detail_page Locked Admin [] []) = Some ''Locked'' \<and>
   fst (unlockRecord (detail_page Locked Admin [] [])) = None \<and>
   page_status (snd (unlockRecord (detail_page Locked Admin [] []))) = Some ''Approved''"
  using page_status_workflow_op [of Unlock "detail_page Locked Admin [] []"]
    fst_workflow_op [of Unlock "detail_page Locked Admin [] []"]
  by (simp add: spec_guard_error_def js_trim_def detail_page_inputs detail_page_status
      detail_page_badge)

text \<open>
  Claim C5 as amended. \<open>unlockRecord\<close> reads no justification. Whenever the page has the
  status badge, and so for a \<open>Locked\<close> record with an absent, empty or whitespace-only
  justification and any role, the call does not throw and the status becomes
  \<open>Approved\<close>. Where the page has a toast container that the badge does not hold, the
  success toast \<open>Record unlocked\<close> is the container's last child after the call.
\<close>
theorem unlockRecord_checks_no_justification:
  assumes "getElementById ''status-badge'' d \<noteq> None"
  shows "fst (unlockRecord d) = None \<and>
         page_status (snd (unlockRecord d)) = Some ''Approved'' \<and>
         (toast_container_kept d \<longrightarrow>
            last_toast (snd (unlockRecord d))
              = Some (toast_node (next_ref d) Success ''Record unlocked''))"
  using assms fst_workflow_op [of Unlock d] page_status_workflow_op [of Unlock d]
    toast_workflow_op(1) [of d Unlock]
  by simp

text \<open>C5 as amended, at a locked record with an \<open>Editor\<close> and a justification of a space
  and a tab.\<close>
theorem unlockRecord_checks_no_justification_witness:
  "getElementById ''status-badge'' (detail_page Locked Editor [] [0x20, 0x09]) \<noteq> None \<and>
   toast_container_kept (detail_page Locked Editor [] [0x20, 0x09]) \<and>
   input_value ''input-unlock-reason'' (detail_page Locked Editor [] [0x20, 0x09]) = Some [0x20, 0x09] \<and>
   js_trim [0x20, 0x09] = [] \<and>
   page_status (snd (unlockRecord (detail_page Locked Editor [] [0x20, 0x09]))) = Some ''Approved'' \<and>
   last_toast (snd (unlockRecord (detail_page Locked Editor [] [0x20, 0x09])))
     = Some (toast_node 9 Success ''Record unlocked'')"
  using unlockRecord_checks_no_justification [of "detail_page Locked Editor [] [0x20, 0x09]"]
  by (simp add: detail_page_badge detail_page_inputs js_trim_def js_whitespace_def
      detail_page_toast detail_page_next_ref)

text \<open>
  Claim C6 says that every transition requested on an \<open>Archived\<close> record fails with
  \<open>InvalidTransition\<close> and that the status never leaves \<open>Archived\<close>. It fails on the
  code: on an archived record \<open>submitForReview\<close> returns normally and the status is
  \<open>Pending Review\<close>.
\<close>
theorem archived_record_resubmitted:
  "spec_guard_error SubmitForReview Archived Admin [] = Some InvalidTransition \<and>
   page_status (detail_page Archived Admin [] []) = Some ''Archived'' \<and>
   fst (submitForReview (detail_page Archived Admin [] [])) = None \<and>
   page_status (snd (submitForReview (detail_page Archived Admin [] []))) = Some ''Pending Review''"
  using page_status_workflow_op [of SubmitForReview "detail_page Archived Admin [] []"]
    fst_workflow_op [of SubmitForReview "detail_page Archived Admin [] []"]
  by (simp add: spec_guard_error_def detail_page_status detail_page_badge)

text \<open>
  Claim C6 as amended. \<open>Archived\<close> is not absorbing in the handlers: on a record whose
  badge reads \<open>Archived\<close> every handler returns normally and sets the status to its own
  target, so the status is still \<open>Archived\<close> after the call exactly when the call was
  \<open>archiveRecord\<close>.
\<close>
theorem archived_kept_only_by_archive:
  assumes "page_status d = Some (status_label Archived)"
  shows "fst (workflow_op t d) = None \<and>
         page_status (snd (workflow_op t d)) = Some (status_label (spec_to t)) \<and>
         (page_status (snd (workflow_op t d)) = Some (status_label Archived) \<longleftrightarrow> t = Archive)"
proof -
  from assms have "getElementById ''status-badge'' d \<noteq> None"
    by (rule page_status_Some_badge)
  then have st: "page_status (snd (workflow_op t d)) = Some (status_label (spec_to t))"
    by (simp add: page_status_workflow_op)
  have "spec_to t = Archived \<longleftrightarrow> t = Archive" by (cases t) simp_all
  with st show ?thesis
    by (simp add: fst_workflow_op status_label_inj del: status_label.simps)
qed

text \<open>C6 as amended, at an archived record: \<open>unlockRecord\<close> and \<open>archiveRecord\<close>.\<close>
theorem archived_kept_only_by_archive_witness:
  "page_status (detail_page Archived Admin [] []) = Some (status_label Archived) \<and>
   page_status (snd (workflow_op Unlock (detail_page Archived Admin [] []))) = Some ''Approved'' \<and>
   page_status (snd (workflow_op Archive (detail_page Archived Admin [] []))) = Some ''Archived''"
  using archived_kept_only_by_archive [of "detail_page Archived Admin [] []" Unlock]
    archived_kept_only_by_archive [of "detail_page Archived Admin [] []" Archive]
  by (simp add: detail_page_status)

lemma js_trim_audit_correction: "js_trim audit_correction \<noteq> []"
  by (simp add: js_trim_def audit_correction_def js_whitespace_def)

lemma lock_unlock_log:
  assumes "log_apart d"
  shows "activity_log (snd (unlockRecord (snd (lockRecord d)))) = activity_log d"
  using activity_log_workflow_op [OF log_apart_workflow_op [OF assms, of Lock], of Unlock]
    activity_log_workflow_op [OF assms, of Lock]
  by simp

text \<open>
  Claim C7 says that after Lock and Unlock the record's history holds exactly the two
  audit entries of these calls. It fails on the code: on an approved record whose
  activity log has the one entry \<open>Record created\<close>, an \<open>Admin\<close> and the justification
  \<open>audit correction\<close>, both guard chains of the specification pass, and after
  \<open>lockRecord\<close> and \<open>unlockRecord\<close> the activity log is the same log with the same
  single entry.
\<close>
theorem lock_unlock_writes_no_history:
  "spec_guard_error Lock Approved Admin [] = None \<and>
   spec_guard_error Unlock Locked Admin audit_correction = None \<and>
   page_status (detail_page Approved Admin [] audit_correction) = Some ''Approved'' \<and>
   input_value ''input-unlock-reason'' (detail_page Approved Admin [] audit_correction)
     = Some audit_correction \<and>
   activity_log (detail_page Approved Admin [] audit_correction) = Some created_log \<and>
   activity_log (snd (unlockRecord (snd (lockRecord (detail_page Approved Admin [] audit_correction)))))
     = Some created_log"
  by (simp add: spec_guard_error_def js_trim_audit_correction detail_page_status detail_page_inputs
      lock_unlock_log detail_page_log_apart detail_page_log)

text \<open>
  Claim C7 as amended. On a record whose badge reads \<open>Approved\<close>, \<open>lockRecord\<close> followed
  by \<open>unlockRecord\<close> is a round trip: neither call throws, the status in between is
  \<open>Locked\<close> and the status at the end is the one at the start. Where the page has a
  toast container that the badge does not hold, each call leaves its success toast as
  the container's last child (\<open>Record locked\<close>, then \<open>Record unlocked\<close>). Where the
  activity log stands apart, it is at the end, entries included, what it was at the
  start: neither call adds an entry.
\<close>
theorem lock_unlock_round_trip:
  assumes "page_status d = Some (status_label Approved)"
  shows "fst (lockRecord d) = None \<and>
         page_status (snd (lockRecord d)) = Some (status_label Locked) \<and>
         fst (unlockRecord (snd (lockRecord d))) = None \<and>
         page_status (snd (unlockRecord (snd (lockRecord d)))) = page_status d \<and>
         (toast_container_kept d \<longrightarrow>
            last_toast (snd (lockRecord d)) = Some (toast_node (next_ref d) Success ''Record locked'') \<and>
            last_toast (snd (unlockRecord (snd (lockRecord d))))
              = Some (toast_node (Suc (next_ref d)) Success ''Record unlocked'')) \<and>
         (log_apart d \<longrightarrow> activity_log (snd (unlockRecord (snd (lockRecord d)))) = activity_log d)"
proof -
  let ?d1 = "snd (lockRecord d)"
  from assms have b: "getElementById ''status-badge'' d \<noteq> None"
    by (rule page_status_Some_badge)
  then have s1: "page_status ?d1 = Some (status_label Locked)"
    using page_status_workflow_op [of Lock d] by simp
  then have b1: "getElementById ''status-badge'' ?d1 \<noteq> None"
    by (rule page_status_Some_badge)
  then have s2: "page_status (snd (unlockRecord ?d1)) = page_status d"
    using page_status_workflow_op [of Unlock ?d1] assms by simp
  have t: "last_toast ?d1 = Some (toast_node (next_ref d) Success ''Record locked'') \<and>
           last_toast (snd (unlockRecord ?d1))
             = Some (toast_node (Suc (next_ref d)) Success ''Record unlocked'')"
    if k: "toast_container_kept d"
  proof -
    have k1: "toast_container_kept ?d1" and n1: "next_ref ?d1 = Suc (next_ref d)"
      using toast_workflow_op(3,4) [OF k, of Lock] by simp_all
    show ?thesis
      using toast_workflow_op(1) [OF k, of Lock] toast_workflow_op(1) [OF k1, of Unlock] n1
      by simp
  qed
  show ?thesis
    using s1 s2 t fst_workflow_op [of Lock d] fst_workflow_op [of Unlock ?d1] lock_unlock_log [of d]
    by simp
qed

text \<open>C7 as amended, at an approved record with an \<open>Admin\<close> signed in.\<close>
theorem lock_unlock_round_trip_witness:
  "page_status (detail_page Approved Admin [] audit_correction) = Some (status_label Approved) \<and>
   toast_container_kept (detail_page Approved Admin [] audit_correction) \<and>
   log_apart (detail_page Approved Admin [] audit_correction) \<and>
   page_status (snd (lockRecord (detail_page Approved Admin [] audit_correction))) = Some ''Locked'' \<and>
   page_status (snd (unlockRecord (snd (lockRecord (detail_page Approved Admin [] audit_correction)))))
     = Some ''Approved'' \<and>
   last_toast (snd (unlockRecord (snd (lockRecord (detail_page Approved Admin [] audit_correction)))))
     = Some (toast_node 10 Success ''Record unlocked'') \<and>
   activity_log (snd (unlockRecord (snd (lockRecord (detail_page Approved Admin [] audit_correction)))))
     = Some created_log"
  using lock_unlock_round_trip [of "detail_page Approved Admin [] audit_correction"]
  by (simp add: detail_page_status detail_page_log detail_page_log_apart detail_page_toast
      detail_page_next_ref)

text \<open>
  Claim C10. On a page with the status badge, \<open>updateStatusBadge(text, className)\<close> with a
  class token (non-empty, without whitespace, as every status-modifier class is) does not
  throw; afterwards the badge's class list is \<open>badge\<close> followed by the supplied class
  and nothing else, so whatever classes an earlier status left are gone, and the badge
  text is the supplied text. After each of the six handlers the class list is \<open>badge\<close>
  and the modifier of the handler's target, which is its only status-modifier class.
\<close>
theorem updateStatusBadge_resets_classes:
  assumes "getElementById ''status-badge'' d \<noteq> None" and "token_error className = None"
  shows "fst (updateStatusBadge text className d) = None \<and>
         badge_classes (snd (updateStatusBadge text className d))
           = Some (if className = ''badge'' then [''badge''] else [''badge'', className]) \<and>
         page_status (snd (updateStatusBadge text className d)) = Some text \<and>
         badge_classes (snd (workflow_op t d)) = Some [''badge'', status_modifier (spec_to t)] \<and>
         filter is_status_modifier [''badge'', status_modifier (spec_to t)]
           = [status_modifier (spec_to t)]"
proof -
  from assms(1) obtain b where b: "getElementById ''status-badge'' d = Some b" by auto
  then obtain a cs where e: "b = Element a cs"
    unfolding getElementById_def using find_node_Element(2) by blast
  have u: "updateStatusBadge text className d
           = (None, update_by_id ''status-badge'' (write_badge text className) d)"
    using assms(2) by (rule updateStatusBadge_eq)
  have w: "getElementById ''status-badge'' (snd (updateStatusBadge text className d))
           = Some (Element (put_class className (a\<lparr>classes := [''badge'']\<rparr>)) (text_children text))"
    by (simp add: u badge_after_write [OF assms(2)] b e write_badge_Element [OF assms(2)])
  have c: "badge_classes (snd (updateStatusBadge text className d))
           = Some (if className = ''badge'' then [''badge''] else [''badge'', className])"
    by (simp add: badge_classes_def w classes_of_def put_class_def)
  have p: "page_status (snd (updateStatusBadge text className d)) = Some text"
    by (simp add: page_status_def w del: textContent.simps)
  have m: "filter is_status_modifier [''badge'', status_modifier (spec_to t)]
           = [status_modifier (spec_to t)]"
    by (cases t) (simp_all add: is_status_modifier_def)
  show ?thesis
    using c p m assms(1) by (simp add: u badge_classes_workflow_op)
qed

text \<open>C10 at a locked record's badge: \<open>badge--locked\<close> is replaced.\<close>
theorem updateStatusBadge_resets_classes_witness:
  "getElementById ''status-badge'' (detail_page Locked Admin [] []) \<noteq> None \<and>
   token_error ''badge--archived'' = None \<and>
   badge_classes (detail_page Locked Admin [] []) = Some [''badge'', ''badge--locked''] \<and>
   badge_classes (snd (updateStatusBadge ''Archived'' ''badge--archived'' (detail_page Locked Admin [] [])))
     = Some [''badge'', ''badge--archived''] \<and>
   page_status (snd (updateStatusBadge ''Archived'' ''badge--archived'' (detail_page Locked Admin [] [])))
     = Some ''Archived'' \<and>
   badge_classes (snd (workflow_op Unlock (detail_page Locked Admin [] [])))
     = Some [''badge'', ''badge--approved'']"
  using updateStatusBadge_resets_classes
    [of "detail_page Locked Admin [] []" "''badge--archived''" "''Archived''" Unlock]
  by (simp add: detail_page_badge token_error_literals detail_page_classes)

text \<open>
  Claim C8. Every transition in \<open>availableTransitions record actor\<close> has the actor's role
  in its role set and the record's status in its From set. The function is a value
  computed from its two arguments; it takes and returns no page, log or store.
\<close>
theorem availableTransitions_sound:
  assumes "t \<in> availableTransitions rcd a"
  shows "actor_role a \<in> set (spec_roles t) \<and> rec_status rcd \<in> set (spec_from t)"
  using assms by (simp add: availableTransitions_def canInvoke_def)

text \<open>C8 at a pending record and a \<open>Reviewer\<close>: Approve is available.\<close>
theorem availableTransitions_sound_witness:
  "Approve \<in> availableTransitions \<lparr>rec_id = 7, rec_status = PendingReview\<rparr> \<lparr>actor_role = Reviewer\<rparr> \<and>
   Reviewer \<in> set (spec_roles Approve) \<and> PendingReview \<in> set (spec_from Approve)"
  using availableTransitions_sound
    [of Approve "\<lparr>rec_id = 7, rec_status = PendingReview\<rparr>" "\<lparr>actor_role = Reviewer\<rparr>"]
  by (simp add: availableTransitions_def canInvoke_def)

section \<open>The record form\<close>

text \<open>What a lookup sees of the root of the element it finds, across a write elsewhere.\<close>

lemma find_update_root:
  "(\<forall>x. find_node P n = Some x \<longrightarrow>
      map_option (\<lambda>n. G (attrs_of n)) (find_node R (f x)) = map_option (\<lambda>n. G (attrs_of n)) (find_node R x)) \<Longrightarrow>
   map_option (\<lambda>n. G (attrs_of n)) (find_node R (update_node P f n))
   = map_option (\<lambda>n. G (attrs_of n)) (find_node R n)"
  "(\<forall>x. find_nodes P ns = Some x \<longrightarrow>
      map_option (\<lambda>n. G (attrs_of n)) (find_node R (f x)) = map_option (\<lambda>n. G (attrs_of n)) (find_node R x)) \<Longrightarrow>
   map_option (\<lambda>n. G (attrs_of n)) (find_nodes R (update_nodes P f ns))
   = map_option (\<lambda>n. G (attrs_of n)) (find_nodes R ns)"
proof (induction n and ns rule: node_forest_induct)
  case (3 a cs)
  show ?case
  proof (cases "P a")
    case True
    with 3(2) show ?thesis by simp
  next
    case False
    with 3 show ?thesis by auto
  qed
next
  case (5 n ns)
  show ?case
  proof (cases "find_node P n")
    case None
    with 5 show ?thesis by (auto split: option.splits)
  next
    case (Some x)
    with 5(3) have "map_option (\<lambda>n. G (attrs_of n)) (find_node R (update_node P f n))
                    = map_option (\<lambda>n. G (attrs_of n)) (find_node R n)"
      by (intro 5(1)) auto
    with Some show ?thesis by (auto split: option.splits)
  qed
qed simp_all

lemma find_update_on_attrs_root:
  assumes "\<And>a. R (h a) = R a" and "\<And>a. G (Some (h a)) = G (Some a)"
  shows "map_option (\<lambda>n. G (attrs_of n)) (find_nodes R (update_nodes P (on_attrs h) ns))
         = map_option (\<lambda>n. G (attrs_of n)) (find_nodes R ns)"
proof (rule find_update_root(2), intro allI impI)
  fix x assume "find_nodes P ns = Some x"
  then obtain a cs where "x = Element a cs" using find_node_Element(2) by blast
  then show "map_option (\<lambda>n. G (attrs_of n)) (find_node R (on_attrs h x))
             = map_option (\<lambda>n. G (attrs_of n)) (find_node R x)"
    by (simp add: assms)
qed

lemma find_update_append_root:
  assumes "find_node R t = None"
  shows "map_option (\<lambda>n. G (attrs_of n)) (find_nodes R (update_nodes P (appendChild t) ns))
         = map_option (\<lambda>n. G (attrs_of n)) (find_nodes R ns)"
proof (rule find_update_root(2), intro allI impI)
  fix x assume "find_nodes P ns = Some x"
  then obtain a cs where "x = Element a cs" using find_node_Element(2) by blast
  then show "map_option (\<lambda>n. G (attrs_of n)) (find_node R (appendChild t x))
             = map_option (\<lambda>n. G (attrs_of n)) (find_node R x)"
    by (simp add: find_nodes_append assms split: option.splits)
qed

lemma find_for_each_root:
  assumes "\<And>a. R (g a) = R a" and "\<And>a. G (Some (g a)) = G (Some a)"
  shows "map_option (\<lambda>n. G (attrs_of n)) (find_nodes R (map (for_each_node g) ns))
         = map_option (\<lambda>n. G (attrs_of n)) (find_nodes R ns)"
proof (cases "find_nodes R ns")
  case None
  then show ?thesis by (simp add: find_for_each(2) assms(1))
next
  case (Some x)
  then obtain a cs where "x = Element a cs" using find_node_Element(2) by blast
  with Some show ?thesis by (simp add: find_for_each(2) assms)
qed

text \<open>Lookups after the reset of the error marks.\<close>

lemma root_after_reset:
  assumes "\<And>a. G (Some (drop_class ''visible'' a)) = G (Some a)"
  shows "map_option (\<lambda>n. G (attrs_of n)) (getElementById i (reset_marks d))
         = map_option (\<lambda>n. G (attrs_of n)) (getElementById i d)"
proof -
  let ?g = "\<lambda>a. if has_class ''form-error'' a then drop_class ''visible'' a else a"
  let ?ns = "map (for_each_node ?g) (nodes d)"
  have "map_option (\<lambda>n. G (attrs_of n)) (find_nodes (\<lambda>a. el_id a = Some i)
          (update_nodes (\<lambda>a. el_id a = Some ''form-error-summary'') (on_attrs (drop_class ''visible'')) ?ns))
        = map_option (\<lambda>n. G (attrs_of n)) (find_nodes (\<lambda>a. el_id a = Some i) ?ns)"
    by (rule find_update_on_attrs_root) (simp_all add: assms)
  also have "\<dots> = map_option (\<lambda>n. G (attrs_of n)) (find_nodes (\<lambda>a. el_id a = Some i) (nodes d))"
    by (rule find_for_each_root) (simp_all add: assms)
  finally show ?thesis
    by (simp add: reset_marks_def getElementById_def update_by_id_def for_each_with_class_def)
qed

lemma value_after_reset:
  "map_option (\<lambda>n. Option.bind (attrs_of n) el_value) (getElementById i (reset_marks d))
   = map_option (\<lambda>n. Option.bind (attrs_of n) el_value) (getElementById i d)"
  using root_after_reset [of "\<lambda>a. Option.bind a el_value" i d] by simp

lemma exists_after_reset:
  "getElementById i (reset_marks d) = None \<longleftrightarrow> getElementById i d = None"
  using root_after_reset [of "\<lambda>a. ()" i d]
  by (cases "getElementById i (reset_marks d)"; cases "getElementById i d") simp_all

lemma frame_reset_marks [simp]:
  "timers (reset_marks d) = timers d" "next_ref (reset_marks d) = next_ref d"
  by (simp_all add: reset_marks_def for_each_with_class_def)

lemma blank_after_reset:
  "(case getElementById ''input-record-title'' (reset_marks d) of
      None \<Rightarrow> Inr True
    | Some title \<Rightarrow>
        (case Option.bind (attrs_of title) el_value of
           None \<Rightarrow> Inl TypeError | Some v \<Rightarrow> Inr (js_trim v = [])))
   = (if title_filled d then Inr False else if title_blank d then Inr True else Inl TypeError)"
  using value_after_reset [of "''input-record-title''" d]
  by (cases "getElementById ''input-record-title'' (reset_marks d)";
      cases "getElementById ''input-record-title'' d")
     (auto simp: title_filled_def title_blank_def split: option.splits)

lemma validateRecordForm_pass:
  assumes "title_filled d"
  shows "validateRecordForm e d
         = (None, e\<lparr>defaultPrevented := True\<rparr>,
            setTimeout (Navigate ''record-detail.html'') 1200
              (showToast Success ''Record created successfully!'' (reset_marks d)))"
  using assms blank_after_reset [of d]
  by (simp add: validateRecordForm_def Let_def reset_marks_def)

lemma validateRecordForm_fail:
  assumes "title_blank d"
  shows "validateRecordForm e d
         = (None, e\<lparr>defaultPrevented := True\<rparr>,
            update_by_id ''form-error-summary''
              (\<lambda>s. set_textContent ''Please fix the highlighted errors before submitting.''
                     (on_attrs (put_class ''visible'') s))
              (update_by_id ''field-error-title'' (on_attrs (put_class ''visible'')) (reset_marks d)))"
proof -
  from assms have "\<not> title_filled d"
    by (auto simp: title_filled_def title_blank_def split: option.splits)
  with assms blank_after_reset [of d] show ?thesis
    by (simp add: validateRecordForm_def Let_def reset_marks_def)
qed

lemma validateRecordForm_throw:
  assumes "\<not> title_filled d" and "\<not> title_blank d"
  shows "validateRecordForm e d = (Some TypeError, e\<lparr>defaultPrevented := True\<rparr>, reset_marks d)"
  using assms blank_after_reset [of d]
  by (simp add: validateRecordForm_def Let_def reset_marks_def)

lemma getElementById_setTimeout [simp]: "getElementById i (setTimeout a ms d) = getElementById i d"
  by (simp add: getElementById_def setTimeout_def)

lemma last_toast_setTimeout [simp]: "last_toast (setTimeout a ms d) = last_toast d"
  by (simp add: last_toast_def)

lemma nodes_setTimeout [simp]: "nodes (setTimeout a ms d) = nodes d"
  by (simp add: setTimeout_def)

subsection \<open>The title is filled in\<close>

lemma toast_after_pass:
  assumes "title_filled d" and "getElementById ''toast-container'' d \<noteq> None"
  shows "last_toast (validated e d)
         = Some (toast_node (next_ref d) Success ''Record created successfully!'')"
proof -
  from assms(2) have "getElementById ''toast-container'' (reset_marks d) \<noteq> None"
    by (simp add: exists_after_reset)
  from last_toast_showToast(1) [OF this] show ?thesis
    by (simp add: validateRecordForm_pass [OF assms(1), of e])
qed

lemma no_marks_after_reset:
  "find_nodes (\<lambda>a. has_class ''form-error'' a \<and> has_class ''visible'' a) (nodes (reset_marks d)) = None"
proof -
  let ?B = "\<lambda>a. has_class ''form-error'' a \<and> has_class ''visible'' a"
  let ?g = "\<lambda>a. if has_class ''form-error'' a then drop_class ''visible'' a else a"
  have "find_nodes ?B (map (for_each_node ?g) (nodes d)) = None"
    by (rule for_each_clears(2)) (simp add: has_class_def drop_class_def)
  then have "find_nodes ?B (update_nodes (\<lambda>a. el_id a = Some ''form-error-summary'')
               (on_attrs (drop_class ''visible'')) (map (for_each_node ?g) (nodes d))) = None"
    by (rule find_update_stays_None(2) [rotated])
       (auto simp: has_class_def drop_class_def split: if_splits)
  then show ?thesis
    by (simp add: reset_marks_def update_by_id_def for_each_with_class_def)
qed

lemma no_marks_after_showToast:
  assumes "find_nodes (\<lambda>a. has_class ''form-error'' a \<and> has_class ''visible'' a) (nodes d) = None"
  shows "find_nodes (\<lambda>a. has_class ''form-error'' a \<and> has_class ''visible'' a)
           (nodes (showToast Success msg d)) = None"
proof (cases "getElementById ''toast-container'' d")
  case None
  with assms show ?thesis by (simp add: showToast_def)
next
  case (Some c)
  let ?B = "\<lambda>a. has_class ''form-error'' a \<and> has_class ''visible'' a"
  have t: "find_node ?B (toast_node (next_ref d) Success msg) = None"
    by (simp add: toast_node_def has_class_def class_tokens_toast_success)
  have "find_nodes ?B (update_nodes (\<lambda>a. el_id a = Some ''toast-container'')
          (appendChild (toast_node (next_ref d) Success msg)) (nodes d)) = None"
    using assms
    by (rule find_update_stays_None(2) [rotated])
       (auto simp: find_nodes_append t split: if_splits option.splits)
  with Some show ?thesis
    by (simp add: showToast_def Let_def setTimeout_def update_by_id_def)
qed

lemma no_marks_after_pass:
  assumes "title_filled d"
  shows "find_nodes (\<lambda>a. has_class ''form-error'' a \<and> has_class ''visible'' a)
           (nodes (validated e d)) = None"
  using no_marks_after_showToast [OF no_marks_after_reset, of "''Record created successfully!''" d]
  by (simp add: validateRecordForm_pass [OF assms, of e])

lemma summary_after_reset:
  "getElementById ''form-error-summary'' (reset_marks d) = Some s \<Longrightarrow> ''visible'' \<notin> set (classes_of s)"
proof -
  assume a: "getElementById ''form-error-summary'' (reset_marks d) = Some s"
  have "find_nodes (\<lambda>a. el_id a = Some ''form-error-summary'')
          (update_nodes (\<lambda>a. el_id a = Some ''form-error-summary'') (on_attrs (drop_class ''visible''))
             (nodes (for_each_with_class ''form-error'' (drop_class ''visible'') d)))
        = map_option (on_attrs (drop_class ''visible''))
            (find_nodes (\<lambda>a. el_id a = Some ''form-error-summary'')
               (nodes (for_each_with_class ''form-error'' (drop_class ''visible'') d)))"
    by (rule find_update_same(2)) simp
  with a obtain s1 where s1: "s = on_attrs (drop_class ''visible'') s1"
    and "find_nodes (\<lambda>a. el_id a = Some ''form-error-summary'')
               (nodes (for_each_with_class ''form-error'' (drop_class ''visible'') d)) = Some s1"
    by (auto simp: reset_marks_def getElementById_def update_by_id_def)
  then obtain a1 cs where "s1 = Element a1 cs" using find_node_Element(2) by blast
  with s1 show ?thesis by (simp add: classes_of_def drop_class_def)
qed

lemma summary_after_pass:
  assumes "title_filled d"
    and "getElementById ''form-error-summary'' (validated e d) = Some s"
  shows "''visible'' \<notin> set (classes_of s)"
proof -
  let ?d2 = "reset_marks d"
  let ?S = "\<lambda>a. el_id a = Some ''form-error-summary''"
  from assms have s: "getElementById ''form-error-summary''
                        (showToast Success ''Record created successfully!'' ?d2) = Some s"
    by (simp add: validateRecordForm_pass [OF assms(1), of e])
  show ?thesis
  proof (cases "getElementById ''toast-container'' ?d2")
    case None
    with s show ?thesis by (simp add: showToast_def summary_after_reset)
  next
    case (Some c)
    have "map_option (\<lambda>n. (case attrs_of n of None \<Rightarrow> [] | Some a \<Rightarrow> classes a))
            (find_nodes ?S (update_nodes (\<lambda>a. el_id a = Some ''toast-container'')
               (appendChild (toast_node (next_ref ?d2) Success ''Record created successfully!''))
               (nodes ?d2)))
          = map_option (\<lambda>n. (case attrs_of n of None \<Rightarrow> [] | Some a \<Rightarrow> classes a))
              (find_nodes ?S (nodes ?d2))"
      by (rule find_update_append_root) simp
    with s Some obtain s2 where "getElementById ''form-error-summary'' ?d2 = Some s2"
      and "classes_of s2 = classes_of s"
      by (cases "find_nodes ?S (nodes ?d2)")
         (auto simp: showToast_def Let_def setTimeout_def update_by_id_def getElementById_def
           classes_of_def)
    then show ?thesis using summary_after_reset [of d s2] by simp
  qed
qed

lemma redirect_after_pass:
  assumes "title_filled d"
  shows "redirect_queued d (validated e d)"
  by (cases "getElementById ''toast-container'' (reset_marks d)")
     (simp_all add: validateRecordForm_pass [OF assms, of e] redirect_queued_def setTimeout_def
       showToast_def Let_def)

subsection \<open>The title is blank\<close>

lemma summary_after_fail:
  assumes "title_blank d" and "getElementById ''form-error-summary'' d \<noteq> None"
  shows "\<exists>s. getElementById ''form-error-summary'' (validated e d) = Some s
             \<and> ''visible'' \<in> set (classes_of s)
             \<and> textContent s = Some ''Please fix the highlighted errors before submitting.''"
proof -
  let ?S = "\<lambda>a. el_id a = Some ''form-error-summary''"
  let ?f = "\<lambda>s. set_textContent ''Please fix the highlighted errors before submitting.''
                  (on_attrs (put_class ''visible'') s)"
  let ?d3 = "update_by_id ''field-error-title'' (on_attrs (put_class ''visible'')) (reset_marks d)"
  have "map_option (\<lambda>n. ()) (find_nodes ?S (nodes ?d3))
        = map_option (\<lambda>n. ()) (find_nodes ?S (nodes (reset_marks d)))"
    unfolding update_by_id_def
    using find_update_on_attrs_root [of ?S "put_class ''visible''" "\<lambda>a. ()"] by simp
  with assms(2) obtain s3 where s3: "find_nodes ?S (nodes ?d3) = Some s3"
    using exists_after_reset [of "''form-error-summary''" d]
    by (cases "find_nodes ?S (nodes ?d3)") (auto simp: getElementById_def)
  then obtain a cs where e3: "s3 = Element a cs" using find_node_Element(2) by blast
  have "find_nodes ?S (update_nodes ?S ?f (nodes ?d3)) = map_option ?f (find_nodes ?S (nodes ?d3))"
    by (rule find_update_same(2)) simp
  with s3 e3 have "getElementById ''form-error-summary'' (validated e d)
                   = Some (Element (put_class ''visible'' a)
                       (text_children ''Please fix the highlighted errors before submitting.''))"
    by (simp add: validateRecordForm_fail [OF assms(1), of e] getElementById_def update_by_id_def)
  then show ?thesis
    by (simp add: classes_of_def put_class_def del: textContent.simps)
qed

lemma summary_holds_no_field_error:
  assumes "title_error_kept d"
    and "find_nodes (\<lambda>a. el_id a = Some ''form-error-summary'') (nodes (reset_marks d)) = Some l"
  shows "find_node (\<lambda>a. el_id a = Some ''field-error-title'') l = None"
proof -
  let ?S = "\<lambda>a. el_id a = Some ''form-error-summary''"
  let ?E = "\<lambda>a. el_id a = Some ''field-error-title''"
  let ?g = "\<lambda>a. if has_class ''form-error'' a then drop_class ''visible'' a else a"
  have "find_nodes ?S (update_nodes ?S (on_attrs (drop_class ''visible''))
          (map (for_each_node ?g) (nodes d)))
        = map_option (on_attrs (drop_class ''visible''))
            (find_nodes ?S (map (for_each_node ?g) (nodes d)))"
    by (rule find_update_same(2)) simp
  with assms(2) obtain s0 where s0: "getElementById ''form-error-summary'' d = Some s0"
    and ls: "l = on_attrs (drop_class ''visible'') (for_each_node ?g s0)"
    by (auto simp: reset_marks_def update_by_id_def for_each_with_class_def getElementById_def
        find_for_each(2))
  from assms(1) s0 have "find_node ?E s0 = None" by (simp add: title_error_kept_def)
  then have "find_node ?E (for_each_node ?g s0) = None" by (simp add: find_for_each(1))
  then show ?thesis
    unfolding ls by (cases "for_each_node ?g s0") (auto split: if_splits)
qed

lemma field_error_after_fail:
  assumes "title_blank d" and "title_error_kept d"
  shows "\<exists>x. getElementById ''field-error-title'' (validated e d) = Some x
             \<and> ''visible'' \<in> set (classes_of x)"
proof -
  let ?S = "\<lambda>a. el_id a = Some ''form-error-summary''"
  let ?E = "\<lambda>a. el_id a = Some ''field-error-title''"
  let ?f = "\<lambda>s. set_textContent ''Please fix the highlighted errors before submitting.''
                  (on_attrs (put_class ''visible'') s)"
  let ?d2 = "reset_marks d"
  let ?d3 = "update_by_id ''field-error-title'' (on_attrs (put_class ''visible'')) ?d2"
  \<comment> \<open>the field error after it has been marked\<close>
  from assms(2) have "getElementById ''field-error-title'' ?d2 \<noteq> None"
    by (simp add: exists_after_reset title_error_kept_def)
  then obtain x2 where x2: "find_nodes ?E (nodes ?d2) = Some x2"
    by (auto simp: getElementById_def)
  then obtain a cs where e2: "x2 = Element a cs" and ida: "el_id a = Some ''field-error-title''"
    using find_node_Element(2) by blast
  have "find_nodes ?E (update_nodes ?E (on_attrs (put_class ''visible'')) (nodes ?d2))
        = map_option (on_attrs (put_class ''visible'')) (find_nodes ?E (nodes ?d2))"
    by (rule find_update_same(2)) simp
  with x2 e2 have x3: "find_nodes ?E (nodes ?d3) = Some (Element (put_class ''visible'' a) cs)"
    by (simp add: update_by_id_def)
  \<comment> \<open>marking the field error leaves the summary as it is\<close>
  have "find_nodes ?S (update_nodes ?E (on_attrs (put_class ''visible'')) (nodes ?d2))
        = find_nodes ?S (nodes ?d2)"
  proof (rule find_update_keep(2))
    show "\<forall>x. find_nodes ?E (nodes ?d2) = Some x \<longrightarrow>
            find_node ?S (on_attrs (put_class ''visible'') x) = find_node ?S x"
      using x2 e2 ida by simp
  next
    show "\<forall>l. find_nodes ?S (nodes ?d2) = Some l \<longrightarrow> find_node ?E l = None"
      using summary_holds_no_field_error [OF assms(2)] by blast
  qed
  then have keep: "find_nodes ?S (nodes ?d3) = find_nodes ?S (nodes ?d2)"
    by (simp add: update_by_id_def)
  \<comment> \<open>writing the summary leaves the field error's classes as they are\<close>
  have "map_option (\<lambda>n. (case attrs_of n of None \<Rightarrow> [] | Some a \<Rightarrow> classes a))
          (find_nodes ?E (update_nodes ?S ?f (nodes ?d3)))
        = map_option (\<lambda>n. (case attrs_of n of None \<Rightarrow> [] | Some a \<Rightarrow> classes a))
            (find_nodes ?E (nodes ?d3))"
  proof (rule find_update_root(2), intro allI impI)
    fix s assume s: "find_nodes ?S (nodes ?d3) = Some s"
    then obtain b bs where sb: "s = Element b bs" and idb: "el_id b = Some ''form-error-summary''"
      using find_node_Element(2) by blast
    from s keep have "find_node ?E s = None"
      using summary_holds_no_field_error [OF assms(2)] by simp
    moreover have "find_node ?E (?f s) = None" by (simp add: sb idb)
    ultimately show "map_option (\<lambda>n. (case attrs_of n of None \<Rightarrow> [] | Some a \<Rightarrow> classes a)) (find_node ?E (?f s))
          = map_option (\<lambda>n. (case attrs_of n of None \<Rightarrow> [] | Some a \<Rightarrow> classes a)) (find_node ?E s)"
      by simp
  qed
  with x3 obtain x where "getElementById ''field-error-title'' (validated e d) = Some x"
    and "classes_of x = classes (put_class ''visible'' a)"
    by (auto simp: validateRecordForm_fail [OF assms(1), of e] getElementById_def update_by_id_def
        classes_of_def)
  then show ?thesis by (auto simp: put_class_def)
qed

lemma frame_after_fail:
  assumes "title_blank d"
  shows "timers (validated e d) = timers d" and "next_ref (validated e d) = next_ref d"
  by (simp_all add: validateRecordForm_fail [OF assms, of e])

subsection \<open>The decision\<close>

text \<open>
  Claim C9. \<open>validateRecordForm\<close> decides on the title alone. When the title input
  exists and its value is not empty after trimming, the call returns normally, the
  success toast is the last child of the toast container (where the page has one), the
  redirect is queued, and no element of class \<open>form-error\<close> and no error summary is
  visible. When the title input is missing or its value is empty or whitespace only, the
  call returns normally, the title's field error is visible (where the page has it
  outside the summary), the summary is visible and carries its message (where the page
  has it), no node is created and nothing is queued. The redirect is queued exactly when
  the title is filled in: no other field of the page, the Type select included, enters
  the decision.
\<close>
theorem validateRecordForm_checks_title_only:
  "(title_filled d \<longrightarrow>
      fst (validateRecordForm e d) = None \<and>
      (getElementById ''toast-container'' d \<noteq> None \<longrightarrow>
         last_toast (validated e d)
           = Some (toast_node (next_ref d) Success ''Record created successfully!'')) \<and>
      find_nodes (\<lambda>a. has_class ''form-error'' a \<and> has_class ''visible'' a)
        (nodes (validated e d)) = None \<and>
      (\<forall>s. getElementById ''form-error-summary'' (validated e d) = Some s
           \<longrightarrow> ''visible'' \<notin> set (classes_of s))) \<and>
   (title_blank d \<longrightarrow>
      fst (validateRecordForm e d) = None \<and>
      (title_error_kept d \<longrightarrow>
         (\<exists>x. getElementById ''field-error-title'' (validated e d) = Some x
              \<and> ''visible'' \<in> set (classes_of x))) \<and>
      (getElementById ''form-error-summary'' d \<noteq> None \<longrightarrow>
         (\<exists>s. getElementById ''form-error-summary'' (validated e d) = Some s
              \<and> ''visible'' \<in> set (classes_of s)
              \<and> textContent s = Some ''Please fix the highlighted errors before submitting.'')) \<and>
      timers (validated e d) = timers d \<and>
      next_ref (validated e d) = next_ref d) \<and>
   (redirect_queued d (validated e d) \<longleftrightarrow> title_filled d)"
proof -
  consider (filled) "title_filled d" | (blank) "\<not> title_filled d" "title_blank d"
    | (novalue) "\<not> title_filled d" "\<not> title_blank d"
    by blast
  then show ?thesis
  proof cases
    case filled
    then have nb: "\<not> title_blank d"
      by (auto simp: title_filled_def title_blank_def split: option.splits)
    have "fst (validateRecordForm e d) = None"
      by (simp add: validateRecordForm_pass [OF filled, of e])
    with filled nb show ?thesis
      using toast_after_pass [OF filled, of e] no_marks_after_pass [OF filled, of e]
        summary_after_pass [OF filled, of e] redirect_after_pass [OF filled, of e]
      by simp
  next
    case blank
    have "\<not> redirect_queued d (validated e d)"
      by (simp add: redirect_queued_def frame_after_fail(1) [OF blank(2)])
    moreover have "fst (validateRecordForm e d) = None"
      by (simp add: validateRecordForm_fail [OF blank(2), of e])
    ultimately show ?thesis
      using blank field_error_after_fail [OF blank(2), of e] summary_after_fail [OF blank(2), of e]
        frame_after_fail [OF blank(2), of e]
      by simp
  next
    case novalue
    then show ?thesis
      by (simp add: validateRecordForm_throw [OF novalue, of e] redirect_queued_def)
  qed
qed

lemma form_page_title:
  "title_filled (form_page v ty) \<longleftrightarrow> js_trim v \<noteq> []"
  "title_blank (form_page v ty) \<longleftrightarrow> js_trim v = []"
  by (simp_all add: title_filled_def title_blank_def getElementById_def form_page_def)

lemma form_page_structure:
  "getElementById ''toast-container'' (form_page v ty) \<noteq> None"
  "title_error_kept (form_page v ty)"
  "getElementById ''form-error-summary'' (form_page v ty) \<noteq> None"
  "input_value ''select-record-type'' (form_page v ty) = Some ty"
  "next_ref (form_page v ty) = 6"
  by (simp_all add: title_error_kept_def getElementById_def input_value_def find_testid_def
      form_page_def)

text \<open>C9 at two forms: title \<open>Q4\<close> with no type chosen passes; a title of a space and a
  no-break space with a type chosen fails.\<close>
theorem validateRecordForm_checks_title_only_witness:
  "title_filled (form_page [0x51, 0x34] []) \<and>
   input_value ''select-record-type'' (form_page [0x51, 0x34] []) = Some [] \<and>
   getElementById ''toast-container'' (form_page [0x51, 0x34] []) \<noteq> None \<and>
   last_toast (validated \<lparr>defaultPrevented = False\<rparr> (form_page [0x51, 0x34] []))
     = Some (toast_node 6 Success ''Record created successfully!'') \<and>
   redirect_queued (form_page [0x51, 0x34] [])
     (validated \<lparr>defaultPrevented = False\<rparr> (form_page [0x51, 0x34] [])) \<and>
   title_blank (form_page [0x20, 0xA0] [0x48, 0x52]) \<and>
   title_error_kept (form_page [0x20, 0xA0] [0x48, 0x52]) \<and>
   getElementById ''form-error-summary'' (form_page [0x20, 0xA0] [0x48, 0x52]) \<noteq> None \<and>
   (\<exists>x. getElementById ''field-error-title''
           (validated \<lparr>defaultPrevented = False\<rparr> (form_page [0x20, 0xA0] [0x48, 0x52]))
         = Some x \<and> ''visible'' \<in> set (classes_of x)) \<and>
   \<not> redirect_queued (form_page [0x20, 0xA0] [0x48, 0x52])
       (validated \<lparr>defaultPrevented = False\<rparr> (form_page [0x20, 0xA0] [0x48, 0x52]))"
proof -
  have a: "title_filled (form_page [0x51, 0x34] [])"
    by (simp add: form_page_title js_trim_def js_whitespace_def)
  have b: "title_blank (form_page [0x20, 0xA0] [0x48, 0x52])"
    "\<not> title_filled (form_page [0x20, 0xA0] [0x48, 0x52])"
    by (simp_all add: form_page_title js_trim_def js_whitespace_def)
  show ?thesis
    using a b
      validateRecordForm_checks_title_only [of "form_page [0x51, 0x34] []" "\<lparr>defaultPrevented = False\<rparr>"]
      validateRecordForm_checks_title_only [of "form_page [0x20, 0xA0] [0x48, 0x52]" "\<lparr>defaultPrevented = False\<rparr>"]
    by (simp add: form_page_structure)
qed

end
